theory Spec2Isabelle
  imports Complex_Main
begin

section \<open>Vendor objects and the state of the media player entity\<close>

text \<open>
  The objects of the vendor client that \<^verbatim>\<open>media_player.py\<close> reads, with the fields it
  reads. A field that may be \<^verbatim>\<open>None\<close> is an option. Python ints are integers; Python
  floats are the binary64 values of the section on floats below.
\<close>

record VolumeLevel =
  vl_level :: "int option"

record VolumeState =
  level :: "VolumeLevel option"

text \<open>What the entity does besides changing its own attributes: calls of the vendor client,
  log records, dispatcher events, sleeps and scheduled tasks, in the order they happen.\<close>

datatype client_call =
    set_current_volume_level int
  | set_active_source string
  | post_remote_trigger string
  | join_latest_beolink_experience
  | join_beolink_peer string
  | post_beolink_expand string

datatype log_level = WARNING | ERROR

datatype effect =
    Client client_call
  | Log log_level string "string list"
  | Dispatcher_send string "string list"
  | Sleep nat
  | Create_task "effect list"
  | Write_ha_state

datatype error =
    IndexError | AttributeError | ValueError | KeyError | OverflowError | ZeroDivisionError

record BeolinkLeader =
  leader_friendly_name :: string
  leader_jid :: string

record BeolinkListener =
  listener_jid :: string

record BeolinkPeer =
  peer_friendly_name :: string
  peer_jid :: string

record Art =
  art_key :: "string option"
  art_size :: "string option"
  art_url :: "string option"

record PlaybackContentMetadata =
  title :: "string option"
  art :: "Art list option"
  pcm_remote_leader :: "BeolinkLeader option"

record Source =
  source_id :: "string option"
  source_name :: "string option"

text \<open>A Python dict is the list of its items in insertion order; its keys are distinct.\<close>

type_synonym ('k, 'v) dict = "('k \<times> 'v) list"

text \<open>The extra state attribute \<^verbatim>\<open>{"beolink": {"self": ..., "peers": ..., "leader": ...,
  "listeners": ...}}\<close>; a key that has not been set is \<open>None\<close>.\<close>

record beolink_attr =
  attr_self :: "string \<times> string"
  attr_peers :: "(string, string) dict option"
  attr_leader :: "(string \<times> string) option"
  attr_listeners :: "(string, string) dict option"

text \<open>The attributes of \<^verbatim>\<open>BangOlufsenMediaPlayer\<close> (without the leading underscore). An entry
  of the group-members list is an option, because \<^verbatim>\<open>cast(str, ...)\<close> checks nothing at run
  time and lets \<^verbatim>\<open>None\<close> through.\<close>

record media_player =
  beolink_jid :: string
  max_volume :: int
  volume_step :: int
  friendly_name :: string
  audio_sources :: "(string, string) dict"
  video_sources :: "(string, string) dict"
  sources :: "(string, string) dict"
  beolink_listeners :: "BeolinkListener list"
  remote_leader :: "BeolinkLeader option"
  playback_metadata :: PlaybackContentMetadata
  source_change :: Source
  media_image :: Art
  volume :: VolumeState
  attr_group_members :: "string option list"
  beolink_attribute :: "beolink_attr option"

text \<open>The constants of \<^verbatim>\<open>const.py\<close> that the modelled functions read. That module is not
  part of the sources at hand, so the constants are a parameter of every function that
  reads one: the members of \<^verbatim>\<open>SOURCE_ENUM\<close>, the dispatcher topic suffixes, the key of the
  Beolink JID in a config entry, and \<^verbatim>\<open>ART_SIZE_ENUM\<close> as a lookup that fails with
  \<^verbatim>\<open>KeyError\<close> outside its members.\<close>

record constants =
  lineIn :: string
  uriStreamer :: string
  bluetooth :: string
  spdif :: string
  chromeCast :: string
  BEOLINK_LISTENER_COMMAND :: string
  BEOLINK_VOLUME :: string
  BEOLINK_RELATIVE_VOLUME :: string
  CONF_BEOLINK_JID :: string
  ART_SIZE_ENUM :: "string \<rightharpoonup> int"

text \<open>What the entity reads from the platform: the entity registry (by entity id, and from
  unique id to entity id for this platform and domain) and the config entries.
  \<^verbatim>\<open>async_get_entry\<close> of an id that is \<^verbatim>\<open>None\<close> finds nothing.\<close>

record RegistryEntry =
  config_entry_id :: "string option"

record ConfigEntry =
  entry_data :: "string \<rightharpoonup> string"

record hass =
  entity_registry_async_get :: "string \<rightharpoonup> RegistryEntry"
  config_entries_async_get_entry :: "string \<rightharpoonup> ConfigEntry"
  async_get_entity_id :: "string \<rightharpoonup> string"

text \<open>The objects \<^verbatim>\<open>select.py\<close> reads, and the attributes of
  \<^verbatim>\<open>BangOlufsenSelectListeningPosition\<close>.\<close>

record Action =
  speaker_group_id :: "string option"

record Scene =
  tags :: "string list option"
  label :: "string option"
  action_list :: "Action list"

record SpeakerGroupOverview =
  group_id :: "string option"

record select_listening_position =
  listening_positions :: "(string, string) dict"
  attr_current_option :: "string option"
  attr_options :: "string list"

section \<open>Python helpers\<close>

definition and_then :: "error + 'a \<Rightarrow> ('a \<Rightarrow> error + 'b) \<Rightarrow> error + 'b" where
  "and_then r f = (case r of Inl e \<Rightarrow> Inl e | Inr x \<Rightarrow> f x)"

text \<open>\<^verbatim>\<open>s.split(sep)\<close> for a one-character separator: every occurrence splits, and the
  result has at least one part.\<close>

fun split_str :: "char \<Rightarrow> string \<Rightarrow> string list" where
  "split_str sep [] = [[]]"
| "split_str sep (c # cs) =
     (if c = sep then [] # split_str sep cs
      else (case split_str sep cs of
              [] \<Rightarrow> [[c]]
            | p # ps \<Rightarrow> (c # p) # ps))"

text \<open>\<^verbatim>\<open>xs[i]\<close> for a non-negative index: \<^verbatim>\<open>IndexError\<close> out of range.\<close>

fun py_index :: "'a list \<Rightarrow> nat \<Rightarrow> error + 'a" where
  "py_index [] i = Inl IndexError"
| "py_index (x # xs) 0 = Inr x"
| "py_index (x # xs) (Suc i) = py_index xs i"

text \<open>\<^verbatim>\<open>d[k] = v\<close>: an existing key keeps its place, a new key goes last.\<close>

fun dict_set :: "('k, 'v) dict \<Rightarrow> 'k \<Rightarrow> 'v \<Rightarrow> ('k, 'v) dict" where
  "dict_set [] k v = [(k, v)]"
| "dict_set ((k', v') # d) k v =
     (if k' = k then (k', v) # d else (k', v') # dict_set d k v)"

definition dict_keys :: "('k, 'v) dict \<Rightarrow> 'k list" where
  "dict_keys d = map fst d"

definition dict_values :: "('k, 'v) dict \<Rightarrow> 'v list" where
  "dict_values d = map snd d"

text \<open>\<^verbatim>\<open>xs.index(x)\<close>: the first position of \<open>x\<close>, \<^verbatim>\<open>ValueError\<close> when it is not there.\<close>

fun list_index :: "'a list \<Rightarrow> 'a \<Rightarrow> error + nat" where
  "list_index [] x = Inl ValueError"
| "list_index (y # ys) x =
     (if y = x then Inr 0 else and_then (list_index ys x) (\<lambda>i. Inr (Suc i)))"

section \<open>Python floats\<close>

text \<open>
  A Python float is an IEEE 754 binary64 value: a finite number \<open>m * 2 ^ e\<close> with
  \<open>\<bar>m\<bar> < 2 ^ 53\<close> and \<open>- 1074 \<le> e \<le> 971\<close>, an infinity, or NaN. Every arithmetic
  operation computes the exact result and rounds it to the nearest such value, ties to the
  even \<open>m\<close>. The sign of zero is not modelled: \<^verbatim>\<open>-0.0\<close> and \<^verbatim>\<open>0.0\<close> compare equal, are
  both falsy and both give 0 under \<^verbatim>\<open>int\<close>, and nothing here divides by a float.
\<close>

datatype pyfloat = Finite real | PInf | NInf | NaN

text \<open>The number of binary digits of a natural number.\<close>

fun bit_length :: "nat \<Rightarrow> nat" where
  "bit_length n = (if n = 0 then 0 else Suc (bit_length (n div 2)))"

declare bit_length.simps [simp del]

text \<open>For \<open>a > 0\<close>, the integer \<open>k\<close> with \<open>2 ^ k \<le> a < 2 ^ (k + 1)\<close>.\<close>

definition ilog2 :: "real \<Rightarrow> int" where
  "ilog2 a =
     (if 1 \<le> a then int (bit_length (nat \<lfloor>a\<rfloor>)) - 1
      else - int (bit_length (nat (\<lceil>1 / a\<rceil> - 1))))"

definition pow2 :: "int \<Rightarrow> real" where
  "pow2 e = (if 0 \<le> e then 2 ^ nat e else 1 / 2 ^ nat (- e))"

definition round_half_even :: "real \<Rightarrow> int" where
  "round_half_even q =
     (let f = \<lfloor>q\<rfloor>; d = q - of_int f
      in if d < 1 / 2 then f
         else if 1 / 2 < d then f + 1
         else if even f then f else f + 1)"

text \<open>Rounding to 53 significant bits, with the exponent of the last bit not below - 1074
  (the subnormal numbers) and not bounded above.\<close>

definition round_binary64 :: "real \<Rightarrow> real" where
  "round_binary64 x =
     (if x = 0 then 0
      else (let a = \<bar>x\<bar>;
                e = max (ilog2 a - 52) (- 1074);
                m = round_half_even (a / pow2 e)
            in sgn x * (of_int m * pow2 e)))"

text \<open>The float of an exact result: a rounded value of magnitude \<open>2 ^ 1024\<close> or more
  overflows to an infinity.\<close>

definition fl :: "real \<Rightarrow> pyfloat" where
  "fl x =
     (let r = round_binary64 x
      in if 2 ^ 1024 \<le> r then PInf
         else if r \<le> - (2 ^ 1024) then NInf
         else Finite r)"

text \<open>\<^verbatim>\<open>a / b\<close> on ints: the correctly rounded quotient, \<^verbatim>\<open>OverflowError\<close> when it is too
  large for a float.\<close>

definition int_truediv :: "int \<Rightarrow> int \<Rightarrow> error + pyfloat" where
  "int_truediv a b =
     (if b = 0 then Inl ZeroDivisionError
      else (case fl (real_of_int a / real_of_int b) of
              Finite r \<Rightarrow> Inr (Finite r)
            | _ \<Rightarrow> Inl OverflowError))"

fun float_add :: "pyfloat \<Rightarrow> pyfloat \<Rightarrow> pyfloat" where
  "float_add (Finite a) (Finite b) = fl (a + b)"
| "float_add NaN y = NaN"
| "float_add x NaN = NaN"
| "float_add PInf NInf = NaN"
| "float_add NInf PInf = NaN"
| "float_add PInf y = PInf"
| "float_add x PInf = PInf"
| "float_add NInf y = NInf"
| "float_add x NInf = NInf"

fun float_mul :: "pyfloat \<Rightarrow> pyfloat \<Rightarrow> pyfloat" where
  "float_mul (Finite a) (Finite b) = fl (a * b)"
| "float_mul NaN y = NaN"
| "float_mul x NaN = NaN"
| "float_mul PInf (Finite b) = (if b = 0 then NaN else if 0 < b then PInf else NInf)"
| "float_mul NInf (Finite b) = (if b = 0 then NaN else if 0 < b then NInf else PInf)"
| "float_mul (Finite a) PInf = (if a = 0 then NaN else if 0 < a then PInf else NInf)"
| "float_mul (Finite a) NInf = (if a = 0 then NaN else if 0 < a then NInf else PInf)"
| "float_mul PInf PInf = PInf"
| "float_mul NInf NInf = PInf"
| "float_mul PInf NInf = NInf"
| "float_mul NInf PInf = NInf"

text \<open>\<^verbatim>\<open>x <= y\<close>; \<^verbatim>\<open>x >= y\<close> is \<open>float_le y x\<close>. Every comparison with NaN is false.\<close>

fun float_le :: "pyfloat \<Rightarrow> pyfloat \<Rightarrow> bool" where
  "float_le NaN y = False"
| "float_le x NaN = False"
| "float_le (Finite a) (Finite b) = (a \<le> b)"
| "float_le NInf y = True"
| "float_le x PInf = True"
| "float_le PInf y = False"
| "float_le x NInf = False"

text \<open>\<^verbatim>\<open>int(x)\<close> truncates towards zero; it raises \<^verbatim>\<open>OverflowError\<close> on an infinity and
  \<^verbatim>\<open>ValueError\<close> on NaN.\<close>

fun float_to_int :: "pyfloat \<Rightarrow> error + int" where
  "float_to_int (Finite r) = Inr (if 0 \<le> r then \<lfloor>r\<rfloor> else \<lceil>r\<rceil>)"
| "float_to_int PInf = Inl OverflowError"
| "float_to_int NInf = Inl OverflowError"
| "float_to_int NaN = Inl ValueError"

section \<open>Volume\<close>

text \<open>The guard \<^verbatim>\<open>not self._volume.level or not self._volume.level.level\<close>: the stored
  level counts as known when the \<^verbatim>\<open>VolumeLevel\<close> object is there and its level is neither
  \<^verbatim>\<open>None\<close> nor 0.\<close>

definition truthy_level :: "VolumeState \<Rightarrow> int option" where
  "truthy_level v =
     (case level v of
        None \<Rightarrow> None
      | Some vl \<Rightarrow>
          (case vl_level vl of
             None \<Rightarrow> None
           | Some l \<Rightarrow> if l = 0 then None else Some l))"

text \<open>The property \<^verbatim>\<open>volume_level\<close>: \<^verbatim>\<open>float(level / 100)\<close> under the same guard.\<close>

definition volume_level :: "media_player \<Rightarrow> error + pyfloat option" where
  "volume_level s =
     (case truthy_level (volume s) of
        None \<Rightarrow> Inr None
      | Some l \<Rightarrow> and_then (int_truediv l 100) (\<lambda>x. Inr (Some x)))"

definition async_volume_up :: "media_player \<Rightarrow> effect list" where
  "async_volume_up s =
     (case truthy_level (volume s) of
        None \<Rightarrow> [Log WARNING ''Error setting volume'' []]
      | Some l \<Rightarrow>
          (let new_volume = min (l + volume_step s) (max_volume s)
           in [Client (set_current_volume_level new_volume)]))"

definition async_volume_down :: "media_player \<Rightarrow> effect list" where
  "async_volume_down s =
     (case truthy_level (volume s) of
        None \<Rightarrow> [Log WARNING ''Error setting volume'' []]
      | Some l \<Rightarrow>
          (let new_volume = max (l - volume_step s) 0
           in [Client (set_current_volume_level new_volume)]))"

text \<open>\<^verbatim>\<open>async_set_volume_level\<close>: the level sent is \<^verbatim>\<open>int(volume * 100)\<close>.\<close>

definition async_set_volume_level :: "pyfloat \<Rightarrow> error + effect list" where
  "async_set_volume_level vol =
     and_then (float_to_int (float_mul vol (Finite 100)))
       (\<lambda>n. Inr [Client (set_current_volume_level n)])"

text \<open>\<^verbatim>\<open>async_set_relative_volume_level\<close>. \<^verbatim>\<open>not self.volume_level\<close> holds for \<^verbatim>\<open>None\<close>
  and for the float zero.\<close>

definition async_set_relative_volume_level ::
  "media_player \<Rightarrow> pyfloat \<Rightarrow> error + effect list" where
  "async_set_relative_volume_level s vol =
     and_then (volume_level s)
       (\<lambda>current. case current of
          None \<Rightarrow> Inr [Log WARNING ''Error setting volume'' []]
        | Some cur \<Rightarrow>
            if cur = Finite 0 then Inr [Log WARNING ''Error setting volume'' []]
            else
              (let new_volume =
                     (if float_le (Finite 1) (float_add cur vol) then Finite 1
                      else if float_le (float_add cur vol) (Finite 0) then Finite 0
                      else float_add cur vol)
               in async_set_volume_level new_volume))"

section \<open>Source selection\<close>

text \<open>The property \<^verbatim>\<open>source\<close>. The vendor's metadata object always has the attributes
  \<^verbatim>\<open>title\<close> and \<^verbatim>\<open>art\<close>, so both \<^verbatim>\<open>hasattr\<close> tests hold.\<close>

definition source :: "constants \<Rightarrow> media_player \<Rightarrow> string option" where
  "source C s =
     (if title (playback_metadata s) = Some (lineIn C) then Some (lineIn C)
      else if title (playback_metadata s) = Some (bluetooth C) then Some (bluetooth C)
      else if source_id (source_change s)
                \<in> {Some (bluetooth C), Some (lineIn C), Some (spdif C)}
      then Some (chromeCast C)
      else (case art (playback_metadata s) of
              None \<Rightarrow> source_name (source_change s)
            | Some images \<Rightarrow>
                if length images = 0 \<and> source_name (source_change s) = Some (bluetooth C)
                then Some (bluetooth C)
                else source_name (source_change s)))"

definition async_select_source ::
  "media_player \<Rightarrow> string \<Rightarrow> error + media_player \<times> effect list" where
  "async_select_source s src =
     (if src \<notin> set (dict_values (sources s)) then
        Inr (s, [Log ERROR ''Invalid source: %s. Valid sources are: %s''
                   (src # dict_values (sources s))])
      else
        and_then (py_index [x \<leftarrow> dict_keys (sources s). map_of (sources s) x = Some src] 0)
          (\<lambda>key.
             if src \<in> set (dict_values (audio_sources s))
             then Inr (s, [Client (set_active_source key)])
             else Inr (s, [Client (post_remote_trigger key)])))"

section \<open>Beolink group state\<close>

text \<open>\<^verbatim>\<open>jid.split(".")[2].split("@")[0]\<close>.\<close>

definition unique_id_from_jid :: "string \<Rightarrow> error + string" where
  "unique_id_from_jid jid =
     and_then (py_index (split_str CHR ''.'' jid) 2)
       (\<lambda>part. py_index (split_str CHR ''@'' part) 0)"

definition get_entity_id_from_jid :: "hass \<Rightarrow> string \<Rightarrow> error + string option" where
  "get_entity_id_from_jid H jid =
     and_then (unique_id_from_jid jid) (\<lambda>unique_id. Inr (async_get_entity_id H unique_id))"

text \<open>\<^verbatim>\<open>_get_beolink_jid\<close>: the casts check nothing, so a missing registry entry or config
  entry is an \<^verbatim>\<open>AttributeError\<close> at the next attribute access; only a config entry without
  the JID key gives \<^verbatim>\<open>None\<close>.\<close>

definition get_beolink_jid :: "constants \<Rightarrow> hass \<Rightarrow> string \<Rightarrow> error + string option" where
  "get_beolink_jid C H entity_id =
     (case entity_registry_async_get H entity_id of
        None \<Rightarrow> Inl AttributeError
      | Some entity_entry \<Rightarrow>
          (case (case config_entry_id entity_entry of
                   None \<Rightarrow> None
                 | Some i \<Rightarrow> config_entries_async_get_entry H i) of
             None \<Rightarrow> Inl AttributeError
           | Some config_entry \<Rightarrow> Inr (entry_data config_entry (CONF_BEOLINK_JID C))))"

text \<open>\<^verbatim>\<open>_update_artwork\<close>. \<open>str_int\<close> is Python's \<^verbatim>\<open>int\<close> of a string, \<open>None\<close> where it
  raises \<^verbatim>\<open>ValueError\<close>. The list \<open>images\<close> stays empty when the first image has neither
  key nor size, and then \<^verbatim>\<open>max(images)\<close> raises \<^verbatim>\<open>ValueError\<close>.\<close>

fun artwork_images ::
  "(string \<rightharpoonup> int) \<Rightarrow> constants \<Rightarrow> Art \<Rightarrow> Art list \<Rightarrow> error + int list" where
  "artwork_images str_int C art0 [] = Inr []"
| "artwork_images str_int C art0 (img # rest) =
     (if art_key art0 \<noteq> None then
        (case art_key img of
           None \<Rightarrow> Inl AttributeError
         | Some k \<Rightarrow>
             and_then (py_index (split_str CHR ''x'' k) 0)
               (\<lambda>w. case str_int w of
                      None \<Rightarrow> Inl ValueError
                    | Some n \<Rightarrow>
                        and_then (artwork_images str_int C art0 rest) (\<lambda>ns. Inr (n # ns))))
      else if art_size art0 \<noteq> None then
        (case art_size img of
           None \<Rightarrow> Inl KeyError
         | Some sz \<Rightarrow>
             (case ART_SIZE_ENUM C sz of
                None \<Rightarrow> Inl KeyError
              | Some n \<Rightarrow>
                  and_then (artwork_images str_int C art0 rest) (\<lambda>ns. Inr (n # ns))))
      else artwork_images str_int C art0 rest)"

definition empty_art :: Art where
  "empty_art = \<lparr>art_key = None, art_size = None, art_url = None\<rparr>"

definition update_artwork ::
  "(string \<rightharpoonup> int) \<Rightarrow> constants \<Rightarrow> media_player \<Rightarrow> error + media_player" where
  "update_artwork str_int C s =
     (case art (playback_metadata s) of
        None \<Rightarrow> Inr (s\<lparr>media_image := empty_art\<rparr>)
      | Some [] \<Rightarrow> Inr (s\<lparr>media_image := empty_art\<rparr>)
      | Some (art0 # rest) \<Rightarrow>
          and_then (artwork_images str_int C art0 (art0 # rest))
            (\<lambda>images. case images of
               [] \<Rightarrow> Inl ValueError
             | n # ns \<Rightarrow>
                 and_then (list_index images (fold max ns n))
                   (\<lambda>i. and_then (py_index (art0 # rest) i)
                      (\<lambda>img. Inr (s\<lparr>media_image := img\<rparr>)))))"

text \<open>The loop over the listeners in \<^verbatim>\<open>_update_beolink\<close>: each listener adds the entity id
  its JID resolves to (or \<^verbatim>\<open>None\<close>) to the group members, and the friendly name of the
  first peer with its JID to the listeners attribute.\<close>

fun listeners_loop ::
  "hass \<Rightarrow> BeolinkPeer list \<Rightarrow> BeolinkListener list
   \<Rightarrow> string option list \<times> (string, string) dict
   \<Rightarrow> error + string option list \<times> (string, string) dict" where
  "listeners_loop H peers [] acc = Inr acc"
| "listeners_loop H peers (beolink_listener # rest) (group_members, names) =
     and_then (get_entity_id_from_jid H (listener_jid beolink_listener))
       (\<lambda>entity_id.
          listeners_loop H peers rest
            (group_members @ [entity_id],
             (case find (\<lambda>peer. peer_jid peer = listener_jid beolink_listener) peers of
                None \<Rightarrow> names
              | Some peer \<Rightarrow>
                  dict_set names (peer_friendly_name peer)
                    (listener_jid beolink_listener))))"

text \<open>\<^verbatim>\<open>_update_beolink\<close>. \<open>peers\<close> and \<open>listeners\<close> are what the client returns for
  \<^verbatim>\<open>get_beolink_peers\<close> and \<^verbatim>\<open>get_beolink_listeners\<close>; the listeners are only asked
  for, and stored, when the device has no remote leader.\<close>

definition update_beolink ::
  "constants \<Rightarrow> hass \<Rightarrow> BeolinkPeer list \<Rightarrow> BeolinkListener list \<Rightarrow> media_player
   \<Rightarrow> error + media_player" where
  "update_beolink C H peers listeners s =
     (let attr0 =
            \<lparr>attr_self = (friendly_name s, beolink_jid s),
             attr_peers =
               (if length peers > 0
                then Some (foldl (\<lambda>d peer. dict_set d (peer_friendly_name peer) (peer_jid peer))
                             [] peers)
                else None),
             attr_leader = None, attr_listeners = None\<rparr>;
          leader =
            (if source C s \<in> {Some (lineIn C), Some (uriStreamer C)} then None
             else pcm_remote_leader (playback_metadata s));
          s1 = s\<lparr>beolink_attribute := Some attr0, remote_leader := leader\<rparr>
      in case leader of
           Some ld \<Rightarrow>
             and_then (get_entity_id_from_jid H (leader_jid ld))
               (\<lambda>leader_id.
                  and_then (get_entity_id_from_jid H (beolink_jid s))
                    (\<lambda>self_id.
                       Inr (s1\<lparr>beolink_attribute :=
                                  Some (attr0\<lparr>attr_leader :=
                                          Some (leader_friendly_name ld, leader_jid ld)\<rparr>),
                                attr_group_members := [leader_id, self_id]\<rparr>)))
         | None \<Rightarrow>
             (let s2 = s1\<lparr>beolink_listeners := listeners\<rparr>
              in if length listeners > 0 then
                   and_then (get_entity_id_from_jid H (beolink_jid s))
                     (\<lambda>self_id.
                        and_then (listeners_loop H peers listeners ([self_id], []))
                          (\<lambda>(group_members, names).
                             Inr (s2\<lparr>beolink_attribute :=
                                        Some (attr0\<lparr>attr_listeners := Some names\<rparr>),
                                      attr_group_members := group_members\<rparr>)))
                 else Inr (s2\<lparr>attr_group_members := []\<rparr>)))"

definition update_playback_metadata ::
  "(string \<rightharpoonup> int) \<Rightarrow> constants \<Rightarrow> hass \<Rightarrow> BeolinkPeer list \<Rightarrow> BeolinkListener list
   \<Rightarrow> PlaybackContentMetadata \<Rightarrow> media_player \<Rightarrow> error + media_player \<times> effect list" where
  "update_playback_metadata str_int C H peers listeners data s =
     and_then (update_artwork str_int C (s\<lparr>playback_metadata := data\<rparr>))
       (\<lambda>s1. and_then (update_beolink C H peers listeners s1)
          (\<lambda>s2. Inr (s2, [Write_ha_state])))"

section \<open>Joining a group\<close>

text \<open>\<open>check_valid_jid\<close> is the vendor library's validator, a parameter here.\<close>

definition async_beolink_join :: "(string \<Rightarrow> bool) \<Rightarrow> string option \<Rightarrow> effect list" where
  "async_beolink_join check_valid_jid jid =
     (case jid of
        None \<Rightarrow> [Client join_latest_beolink_experience]
      | Some j \<Rightarrow> if \<not> check_valid_jid j then [] else [Client (join_beolink_peer j)])"

text \<open>\<^verbatim>\<open>_beolink_expand\<close>: one request and one second of sleep for each JID.\<close>

fun beolink_expand :: "string list \<Rightarrow> effect list" where
  "beolink_expand [] = []"
| "beolink_expand (jid # rest) =
     Client (post_beolink_expand jid) # Sleep 1 # beolink_expand rest"

definition async_beolink_expand :: "(string \<Rightarrow> bool) \<Rightarrow> string list \<Rightarrow> effect list" where
  "async_beolink_expand check_valid_jid jids =
     (case find (\<lambda>jid. \<not> check_valid_jid jid) jids of
        Some jid \<Rightarrow> [Log ERROR ''Invalid Beolink JID: %s'' [jid]]
      | None \<Rightarrow> [Create_task (beolink_expand jids)])"

text \<open>The loop of \<^verbatim>\<open>async_join_players\<close>, with the JIDs collected and the warnings logged
  so far.\<close>

fun join_loop ::
  "constants \<Rightarrow> hass \<Rightarrow> string list \<Rightarrow> string list \<times> effect list
   \<Rightarrow> error + string list \<times> effect list" where
  "join_loop C H [] acc = Inr acc"
| "join_loop C H (group_member # rest) (jids, logged) =
     and_then (get_beolink_jid C H group_member)
       (\<lambda>jid. case jid of
          None \<Rightarrow>
            join_loop C H rest
              (jids, logged @ [Log WARNING ''Error adding %s to group'' [group_member]])
        | Some j \<Rightarrow> join_loop C H rest (jids @ [j], logged))"

definition async_join_players ::
  "constants \<Rightarrow> (string \<Rightarrow> bool) \<Rightarrow> hass \<Rightarrow> string list \<Rightarrow> error + effect list" where
  "async_join_players C check_valid_jid H group_members =
     (if length group_members = 0 then Inr (async_beolink_join check_valid_jid None)
      else
        and_then (join_loop C H group_members ([], []))
          (\<lambda>(jids, logged). Inr (logged @ async_beolink_expand check_valid_jid jids)))"

section \<open>Beolink volume\<close>

text \<open>\<open>str_float\<close> is Python's \<^verbatim>\<open>float\<close> of a string, \<open>None\<close> where it raises
  \<^verbatim>\<open>ValueError\<close>. The f-string \<^verbatim>\<open>f"{jid}_{SUFFIX}"\<close> of a topic is the
  JID, an underscore and the suffix.\<close>

definition async_beolink_set_volume ::
  "constants \<Rightarrow> (string \<rightharpoonup> pyfloat) \<Rightarrow> media_player \<Rightarrow> string \<Rightarrow> error + effect list" where
  "async_beolink_set_volume C str_float s volume_str =
     (case remote_leader s of
        Some ld \<Rightarrow> Inr [Dispatcher_send (leader_jid ld @ ''_'' @ BEOLINK_VOLUME C) [volume_str]]
      | None \<Rightarrow>
          (case str_float volume_str of
             None \<Rightarrow> Inl ValueError
           | Some vol \<Rightarrow>
               and_then (async_set_volume_level vol)
                 (\<lambda>local.
                    Inr (local
                         @ map (\<lambda>beolink_listener.
                                  Dispatcher_send
                                    (listener_jid beolink_listener @ ''_'' @ BEOLINK_LISTENER_COMMAND C)
                                    [''set_volume_level'', volume_str])
                             (beolink_listeners s)))))"

definition async_beolink_set_relative_volume ::
  "constants \<Rightarrow> (string \<rightharpoonup> pyfloat) \<Rightarrow> media_player \<Rightarrow> string \<Rightarrow> error + effect list" where
  "async_beolink_set_relative_volume C str_float s volume_str =
     (case remote_leader s of
        Some ld \<Rightarrow>
          Inr [Dispatcher_send (leader_jid ld @ ''_'' @ BEOLINK_RELATIVE_VOLUME C) [volume_str]]
      | None \<Rightarrow>
          (case str_float volume_str of
             None \<Rightarrow> Inl ValueError
           | Some vol \<Rightarrow>
               and_then (async_set_relative_volume_level s vol)
                 (\<lambda>local.
                    Inr (local
                         @ map (\<lambda>beolink_listener.
                                  Dispatcher_send
                                    (listener_jid beolink_listener @ ''_'' @ BEOLINK_LISTENER_COMMAND C)
                                    [''set_relative_volume_level'', volume_str])
                             (beolink_listeners s)))))"

section \<open>Listening positions\<close>

text \<open>The test \<^verbatim>\<open>scene.tags is not None and "listeningposition" in scene.tags and
  scene.label is not None\<close>.\<close>

definition is_listening_position :: "Scene \<Rightarrow> bool" where
  "is_listening_position scene =
     (case tags scene of
        None \<Rightarrow> False
      | Some ts \<Rightarrow> ''listeningposition'' \<in> set ts \<and> label scene \<noteq> None)"

text \<open>The loop over the scenes of \<^verbatim>\<open>_update_listening_positions\<close>, with the entity and the
  warnings logged so far. \<^verbatim>\<open>scene.action_list[0]\<close> raises \<^verbatim>\<open>IndexError\<close> on an empty
  action list.\<close>

fun positions_loop ::
  "SpeakerGroupOverview \<Rightarrow> (string, Scene) dict \<Rightarrow> select_listening_position \<Rightarrow> effect list
   \<Rightarrow> error + select_listening_position \<times> effect list" where
  "positions_loop active [] e logged = Inr (e, logged)"
| "positions_loop active ((scene_key, scene) # rest) e logged =
     (if is_listening_position scene then
        (case label scene of
           None \<Rightarrow> positions_loop active rest e logged
         | Some lbl \<Rightarrow>
             if lbl \<in> set (dict_keys (listening_positions e)) then
               positions_loop active rest e
                 (logged
                  @ [Log WARNING
            ''Ignoring listening position with duplicate name: %s and ID: %s''
            [lbl, scene_key]])
             else
               (let e1 = e\<lparr>listening_positions := dict_set (listening_positions e) lbl scene_key\<rparr>
                in and_then (py_index (action_list scene) 0)
                     (\<lambda>action.
                        positions_loop active rest
                          (if group_id active = speaker_group_id action
                           then e1\<lparr>attr_current_option := Some lbl\<rparr> else e1)
                          logged)))
      else positions_loop active rest e logged)"

text \<open>\<^verbatim>\<open>_update_listening_positions\<close>. \<open>scenes\<close> is what the client returns for
  \<^verbatim>\<open>get_all_scenes\<close>; \<open>active\<close> is the speaker group of the notification, or what the
  client returns for \<^verbatim>\<open>get_speakergroup_active\<close> when the notification carries none.\<close>

definition update_listening_positions ::
  "(string, Scene) dict \<Rightarrow> SpeakerGroupOverview \<Rightarrow> select_listening_position
   \<Rightarrow> error + select_listening_position \<times> effect list" where
  "update_listening_positions scenes active e =
     and_then (positions_loop active scenes (e\<lparr>listening_positions := []\<rparr>) [])
       (\<lambda>(e1, logged).
          Inr (e1\<lparr>attr_options := dict_keys (listening_positions e1)\<rparr>,
               logged @ [Write_ha_state]))"

section \<open>Example states\<close>

text \<open>A device with serial number 33333333, registered as \<^verbatim>\<open>media_player.beosound_a\<close>,
  with no stored volume and no metadata yet.\<close>

definition example_player :: media_player where
  "example_player =
     \<lparr>beolink_jid = ''1111.2222222.33333333@products.bang-olufsen.com'',
      max_volume = 70, volume_step = 5, friendly_name = ''Living room'',
      audio_sources = [(''spotify'', ''Spotify Connect''), (''lineIn'', ''Line-In'')],
      video_sources = [(''HdmiIn:1'', ''HDMI A'')],
      sources = [(''spotify'', ''Spotify Connect''), (''lineIn'', ''Line-In''),
                 (''HdmiIn:1'', ''HDMI A'')],
      beolink_listeners = [], remote_leader = None,
      playback_metadata = \<lparr>title = None, art = None, pcm_remote_leader = None\<rparr>,
      source_change = \<lparr>source_id = Some ''spotify'', source_name = Some ''Spotify Connect''\<rparr>,
      media_image = \<lparr>art_key = None, art_size = None, art_url = None\<rparr>,
      volume = \<lparr>level = None\<rparr>,
      attr_group_members = [], beolink_attribute = None\<rparr>"

definition player_at :: "int \<Rightarrow> int \<Rightarrow> int \<Rightarrow> media_player" where
  "player_at l step mx =
     example_player\<lparr>max_volume := mx, volume_step := step,
       volume := \<lparr>level = Some \<lparr>vl_level = Some l\<rparr>\<rparr>\<rparr>"

definition example_constants :: constants where
  "example_constants =
     \<lparr>lineIn = ''Line-In'', uriStreamer = ''Audio Streamer'', bluetooth = ''Bluetooth'',
      spdif = ''Optical'', chromeCast = ''Chromecast built-in'',
      BEOLINK_LISTENER_COMMAND = ''BEOLINK_LISTENER_COMMAND'',
      BEOLINK_VOLUME = ''BEOLINK_VOLUME'',
      BEOLINK_RELATIVE_VOLUME = ''BEOLINK_RELATIVE_VOLUME'',
      CONF_BEOLINK_JID = ''jid'',
      ART_SIZE_ENUM = [''small'' \<mapsto> 1, ''medium'' \<mapsto> 2, ''large'' \<mapsto> 3]\<rparr>"

text \<open>Python's \<^verbatim>\<open>float\<close> on the strings of the examples: the binary64 values nearest to
  0.1, 0.35 and 0.5.\<close>

definition example_float :: "string \<rightharpoonup> pyfloat" where
  "example_float =
     [''0.1'' \<mapsto> Finite (3602879701896397 / 2 ^ 55),
      ''0.35'' \<mapsto> Finite (3152519739159347 / 2 ^ 53),
      ''0.5'' \<mapsto> Finite (1 / 2)]"

definition example_leader :: BeolinkLeader where
  "example_leader =
     \<lparr>leader_friendly_name = ''Kitchen'',
      leader_jid = ''1111.2222222.55555555@products.bang-olufsen.com''\<rparr>"

definition example_listener :: BeolinkListener where
  "example_listener = \<lparr>listener_jid = ''1111.2222222.44444444@products.bang-olufsen.com''\<rparr>"

text \<open>A platform with three devices of this integration (serial numbers 33333333, 44444444
  and 55555555), a media player of another integration whose config entry has no JID, and
  one whose config entry holds a malformed JID.\<close>

definition example_hass :: hass where
  "example_hass =
     \<lparr>entity_registry_async_get =
        [''media_player.beosound_a'' \<mapsto> \<lparr>config_entry_id = Some ''entry_a''\<rparr>,
         ''media_player.beosound_b'' \<mapsto> \<lparr>config_entry_id = Some ''entry_b''\<rparr>,
         ''media_player.tv'' \<mapsto> \<lparr>config_entry_id = Some ''entry_tv''\<rparr>,
         ''media_player.old'' \<mapsto> \<lparr>config_entry_id = Some ''entry_old''\<rparr>],
      config_entries_async_get_entry =
        [''entry_a'' \<mapsto>
           \<lparr>entry_data = [''jid'' \<mapsto> ''1111.2222222.33333333@products.bang-olufsen.com'']\<rparr>,
         ''entry_b'' \<mapsto>
           \<lparr>entry_data = [''jid'' \<mapsto> ''1111.2222222.44444444@products.bang-olufsen.com'']\<rparr>,
         ''entry_tv'' \<mapsto> \<lparr>entry_data = Map.empty\<rparr>,
         ''entry_old'' \<mapsto> \<lparr>entry_data = [''jid'' \<mapsto> ''bad'']\<rparr>],
      async_get_entity_id =
        [''33333333'' \<mapsto> ''media_player.beosound_a'',
         ''44444444'' \<mapsto> ''media_player.beosound_b'',
         ''55555555'' \<mapsto> ''media_player.kitchen'']\<rparr>"

text \<open>A validator for the examples: the fixed length of 47 characters that the service
  schemas of \<^verbatim>\<open>async_setup_entry\<close> ask of a JID.\<close>

definition example_check_valid_jid :: "string \<Rightarrow> bool" where
  "example_check_valid_jid jid = (length jid = 47)"

text \<open>A listener whose serial number, 66666666, is not in the entity registry of
  \<open>example_hass\<close>.\<close>

definition example_stranger :: BeolinkListener where
  "example_stranger = \<lparr>listener_jid = ''1111.2222222.66666666@products.bang-olufsen.com''\<rparr>"

text \<open>Python's \<^verbatim>\<open>int\<close> on the strings of the examples.\<close>

definition example_int :: "string \<rightharpoonup> int" where
  "example_int = [''640'' \<mapsto> 640, ''1080'' \<mapsto> 1080]"

text \<open>Metadata updates from a device that follows the leader \<open>example_leader\<close>: an
  ordinary one, and one whose title is the line-in source name.\<close>

definition example_metadata :: PlaybackContentMetadata where
  "example_metadata = \<lparr>title = Some ''Song'', art = None, pcm_remote_leader = Some example_leader\<rparr>"

definition example_line_in_metadata :: PlaybackContentMetadata where
  "example_line_in_metadata =
     \<lparr>title = Some ''Line-In'', art = None, pcm_remote_leader = Some example_leader\<rparr>"

text \<open>Five scenes: two listening positions labelled Sofa (\<open>scene1\<close> first, \<open>scene3\<close>
  second), one labelled Desk, and two scenes that are no listening positions.\<close>

definition example_scenes :: "(string, Scene) dict" where
  "example_scenes =
     [(''scene0'', \<lparr>tags = None, label = Some ''Sofa'', action_list = []\<rparr>),
      (''scene1'', \<lparr>tags = Some [''listeningposition''], label = Some ''Sofa'',
                    action_list = [\<lparr>speaker_group_id = Some ''group1''\<rparr>]\<rparr>),
      (''scene2'', \<lparr>tags = Some [''party''], label = Some ''Party'', action_list = []\<rparr>),
      (''scene3'', \<lparr>tags = Some [''listeningposition''], label = Some ''Sofa'',
                    action_list = [\<lparr>speaker_group_id = Some ''group2''\<rparr>]\<rparr>),
      (''scene4'', \<lparr>tags = Some [''listeningposition''], label = Some ''Desk'',
                    action_list = [\<lparr>speaker_group_id = Some ''group3''\<rparr>]\<rparr>)]"

definition example_select :: select_listening_position where
  "example_select =
     \<lparr>listening_positions = [(''Old'', ''old_scene'')], attr_current_option = None,
      attr_options = [''Old'']\<rparr>"

section \<open>Properties of the floats\<close>

lemma bit_length_0: "bit_length 0 = 0"
  by (simp add: bit_length.simps)

lemma bit_length_Suc_0: "bit_length (Suc 0) = 1"
  by (simp add: bit_length.simps)

lemma bit_length_1: "bit_length 1 = 1"
  by (simp add: bit_length.simps)

lemma bit_length_numeral: "bit_length (numeral k) = Suc (bit_length (numeral k div 2))"
  by (subst bit_length.simps) simp

text \<open>The equations that evaluate \<open>fl\<close> at a numeral.\<close>

lemmas fl_eval =
  fl_def round_binary64_def ilog2_def pow2_def round_half_even_def Let_def
  bit_length_0 bit_length_Suc_0 bit_length_1 bit_length_numeral

lemma bit_length_le: "n < 2 ^ k \<Longrightarrow> bit_length n \<le> k"
proof (induction k arbitrary: n)
  case 0
  then show ?case by (simp add: bit_length_0)
next
  case (Suc k)
  show ?case
  proof (cases "n = 0")
    case True
    then show ?thesis by (simp add: bit_length_0)
  next
    case False
    have "n div 2 < 2 ^ k" using Suc.prems by auto
    then have "bit_length (n div 2) \<le> k" by (rule Suc.IH)
    then show ?thesis using False by (subst bit_length.simps) simp
  qed
qed

lemma round_half_even_bounds: "\<lfloor>q\<rfloor> \<le> round_half_even q \<and> round_half_even q \<le> \<lceil>q\<rceil>"
proof -
  have "q - of_int \<lfloor>q\<rfloor> \<noteq> 0 \<Longrightarrow> \<lceil>q\<rceil> = \<lfloor>q\<rfloor> + 1"
    by (metis ceiling_altdef eq_iff_diff_eq_0 of_int_floor_cancel)
  moreover have "\<lfloor>q\<rfloor> \<le> \<lceil>q\<rceil>" by (rule floor_le_ceiling)
  ultimately show ?thesis
    by (auto simp: round_half_even_def Let_def)
qed

lemma ilog2_le_6: assumes "0 < x" and "x \<le> 100" shows "ilog2 x \<le> 6"
proof (cases "1 \<le> x")
  case True
  have "\<lfloor>x\<rfloor> \<le> 100" using assms(2) by linarith
  then have "nat \<lfloor>x\<rfloor> < 128" by linarith
  then have "nat \<lfloor>x\<rfloor> < 2 ^ 7" by simp
  then have "bit_length (nat \<lfloor>x\<rfloor>) \<le> 7" by (rule bit_length_le)
  then show ?thesis using True by (simp add: ilog2_def)
next
  case False
  then show ?thesis by (simp add: ilog2_def)
qed

lemma round_binary64_percent:
  assumes "0 \<le> x" and "x \<le> 100"
  shows "0 \<le> round_binary64 x \<and> round_binary64 x \<le> 100"
proof (cases "x = 0")
  case True
  then show ?thesis by (simp add: round_binary64_def)
next
  case False
  then have pos: "0 < x" using assms(1) by simp
  define e where "e = max (ilog2 x - 52) (- 1074)"
  define k where "k = nat (- e)"
  define m where "m = round_half_even (x / pow2 e)"
  have e: "e \<le> 0" using ilog2_le_6 [OF pos assms(2)] by (simp add: e_def)
  have p: "pow2 e = 1 / 2 ^ k"
    using e by (cases "e = 0") (simp_all add: pow2_def k_def)
  have q: "x / pow2 e = x * 2 ^ k" by (simp add: p)
  have "round_binary64 x = of_int (round_half_even (x / pow2 e)) * pow2 e"
    using pos by (simp add: round_binary64_def Let_def e_def)
  then have r: "round_binary64 x = of_int m / 2 ^ k"
    by (simp add: m_def p)
  have "0 \<le> x * 2 ^ k" using assms(1) by simp
  then have "0 \<le> \<lfloor>x * 2 ^ k\<rfloor>" by simp
  then have lo: "0 \<le> m"
    using round_half_even_bounds [of "x * 2 ^ k"] unfolding m_def q by linarith
  have "x * 2 ^ k \<le> of_int (100 * 2 ^ k)" using assms(2) by simp
  then have "\<lceil>x * 2 ^ k\<rceil> \<le> 100 * 2 ^ k" by (simp only: ceiling_le_iff)
  then have hi: "m \<le> 100 * 2 ^ k"
    using round_half_even_bounds [of "x * 2 ^ k"] unfolding m_def q by linarith
  have "real_of_int m \<le> of_int (100 * 2 ^ k)" using hi by (simp only: of_int_le_iff)
  then have "real_of_int m \<le> 100 * 2 ^ k" by simp
  then have "of_int m / 2 ^ k \<le> (100::real)" by (simp add: divide_le_eq)
  moreover have "0 \<le> real_of_int m / 2 ^ k" using lo by simp
  ultimately show ?thesis using r by simp
qed

lemma fl_percent:
  assumes "0 \<le> x" and "x \<le> 100"
  shows "\<exists>p. fl x = Finite p \<and> 0 \<le> p \<and> p \<le> 100"
proof -
  have b: "0 \<le> round_binary64 x \<and> round_binary64 x \<le> 100"
    using assms by (rule round_binary64_percent)
  have big: "(100::real) < 2 ^ 1024" by simp
  have "fl x = Finite (round_binary64 x)"
    using b big by (simp add: fl_def Let_def)
  then show ?thesis using b by blast
qed

lemma fl_not_NaN: "fl x \<noteq> NaN"
  by (simp add: fl_def Let_def)

text \<open>The floats nearest to 0.1, 0.29, 0.35 and 0.9, and two products: 100 times the float
  0.29 is 28.999999999999996, while 100 times the float 0.35 is exactly 35.\<close>

lemma fl_examples:
  "fl (1 / 10) = Finite (3602879701896397 / 2 ^ 55)"
  "fl (29 / 100) = Finite (5224175567749775 / 2 ^ 54)"
  "fl (35 / 100) = Finite (3152519739159347 / 2 ^ 53)"
  "fl (90 / 100) = Finite (8106479329266893 / 2 ^ 53)"
  "float_mul (Finite (5224175567749775 / 2 ^ 54)) (Finite 100)
     = Finite (8162774324609023 / 2 ^ 48)"
  "float_mul (Finite (3152519739159347 / 2 ^ 53)) (Finite 100) = Finite 35"
  by (simp_all add: fl_eval)


section \<open>Properties of the volume commands\<close>

lemma truthy_level_nonzero: "truthy_level v = Some l \<Longrightarrow> l \<noteq> 0"
  by (auto simp: truthy_level_def split: option.splits if_splits)

text \<open>
  C4 (as amended). A step up with a known (non-zero) stored level \<open>l\<close> and a non-negative
  configured step sends exactly one level, \<open>min (l + step) max\<close>. It never exceeds the
  configured maximum, and it is at least the previous level whenever the previous level
  did not exceed the configured maximum.
\<close>

theorem C4_volume_up_bounds:
  assumes "truthy_level (volume s) = Some l"
    and "0 \<le> volume_step s"
  shows "async_volume_up s =
           [Client (set_current_volume_level (min (l + volume_step s) (max_volume s)))]
         \<and> min (l + volume_step s) (max_volume s) \<le> max_volume s
         \<and> (l \<le> max_volume s \<longrightarrow> l \<le> min (l + volume_step s) (max_volume s))"
  using assms by (simp add: async_volume_up_def)

theorem C4_volume_up_bounds_witness:
  "truthy_level (volume (player_at 40 5 70)) = Some 40
   \<and> async_volume_up (player_at 40 5 70) = [Client (set_current_volume_level 45)]"
proof -
  have h: "truthy_level (volume (player_at 40 5 70)) = Some 40"
    by (simp add: truthy_level_def player_at_def)
  have st: "0 \<le> volume_step (player_at 40 5 70)"
    by (simp add: player_at_def)
  show ?thesis using h C4_volume_up_bounds [OF h st] by (simp add: player_at_def)
qed

text \<open>
  C4 as stated fails: with a stored level of 80, a step of 5 and a configured maximum of 70
  the level sent is 70, below the previous level, although the previous level was not
  at the maximum.
\<close>

theorem C4_volume_up_counterexample:
  "async_volume_up (player_at 80 5 70) = [Client (set_current_volume_level 70)]
   \<and> (70::int) < 80 \<and> (80::int) \<noteq> max_volume (player_at 80 5 70)"
  by (simp add: async_volume_up_def truthy_level_def player_at_def)

text \<open>
  C5. A step down with a known positive stored level \<open>l\<close> and a non-negative configured
  step sends exactly one level, \<open>max (l - step) 0\<close>: it is at least 0 and at most the
  previous level. The configured maximum does not enter: whenever \<open>l - step\<close> exceeds the
  configured maximum, so does the level sent.
\<close>

theorem C5_volume_down_bounds:
  assumes "truthy_level (volume s) = Some l"
    and "0 < l"
    and "0 \<le> volume_step s"
  shows "async_volume_down s = [Client (set_current_volume_level (max (l - volume_step s) 0))]
         \<and> 0 \<le> max (l - volume_step s) 0
         \<and> max (l - volume_step s) 0 \<le> l
         \<and> (max_volume s < l - volume_step s \<longrightarrow> max_volume s < max (l - volume_step s) 0)"
  using assms by (auto simp: async_volume_down_def)

theorem C5_volume_down_bounds_witness:
  "truthy_level (volume (player_at 90 5 70)) = Some 90
   \<and> async_volume_down (player_at 90 5 70) = [Client (set_current_volume_level 85)]
   \<and> max_volume (player_at 90 5 70) < 85"
proof -
  have h: "truthy_level (volume (player_at 90 5 70)) = Some 90"
    by (simp add: truthy_level_def player_at_def)
  have st: "0 \<le> volume_step (player_at 90 5 70)"
    by (simp add: player_at_def)
  show ?thesis using h C5_volume_down_bounds [OF h _ st] by (simp add: player_at_def)
qed

lemma clamp_cases:
  assumes "x \<noteq> NaN"
  shows "\<exists>c. (if float_le (Finite 1) x then Finite 1
              else if float_le x (Finite 0) then Finite 0
              else x) = Finite c
           \<and> 0 \<le> c \<and> c \<le> 1"
  using assms by (cases x) auto

lemma float_add_not_NaN: "y \<noteq> NaN \<Longrightarrow> float_add (Finite a) y \<noteq> NaN"
  by (cases y) (simp_all add: fl_not_NaN)

lemma int_truediv_Finite:
  assumes "int_truediv a b = Inr x"
  shows "\<exists>r. x = Finite r"
proof (cases "fl (real_of_int a / real_of_int b)")
  case (Finite r)
  then have "x = Finite r" using assms by (simp add: int_truediv_def split: if_splits)
  then show ?thesis by blast
next
  case PInf
  then show ?thesis using assms by (simp add: int_truediv_def split: if_splits)
next
  case NInf
  then show ?thesis using assms by (simp add: int_truediv_def split: if_splits)
next
  case NaN
  then show ?thesis using assms by (simp add: int_truediv_def split: if_splits)
qed

lemma volume_level_Finite:
  assumes "volume_level s = Inr (Some cur)"
  shows "\<exists>a. cur = Finite a"
proof -
  obtain l where "int_truediv l 100 = Inr cur"
    using assms by (auto simp: volume_level_def and_then_def split: option.splits sum.splits)
  then show ?thesis by (rule int_truediv_Finite)
qed

lemma set_volume_level_percent:
  assumes "0 \<le> c" and "c \<le> 1"
  shows "\<exists>n. float_to_int (float_mul (Finite c) (Finite 100)) = Inr n
           \<and> 0 \<le> n \<and> n \<le> 100
           \<and> async_set_volume_level (Finite c) = Inr [Client (set_current_volume_level n)]"
proof -
  have "0 \<le> c * 100" and "c * 100 \<le> 100" using assms by simp_all
  then obtain p where p: "fl (c * 100) = Finite p" and lo: "0 \<le> p" and hi: "p \<le> 100"
    using fl_percent by blast
  have "\<lfloor>p\<rfloor> \<le> \<lfloor>100::real\<rfloor>" using hi by (rule floor_mono)
  then have "\<lfloor>p\<rfloor> \<le> 100" by simp
  moreover have "0 \<le> \<lfloor>p\<rfloor>" using lo by simp
  ultimately show ?thesis
    using p lo by (simp add: async_set_volume_level_def and_then_def)
qed

lemma relative_volume_level_clamp:
  assumes "volume_level s = Inr (Some cur)"
    and "cur \<noteq> Finite 0"
    and "vol \<noteq> NaN"
  shows "\<exists>c n. (if float_le (Finite 1) (float_add cur vol) then Finite 1
                else if float_le (float_add cur vol) (Finite 0) then Finite 0
                else float_add cur vol) = Finite c
             \<and> 0 \<le> c \<and> c \<le> 1
             \<and> async_set_relative_volume_level s vol = async_set_volume_level (Finite c)
             \<and> float_to_int (float_mul (Finite c) (Finite 100)) = Inr n
             \<and> 0 \<le> n \<and> n \<le> 100
             \<and> async_set_relative_volume_level s vol
                 = Inr [Client (set_current_volume_level n)]"
proof -
  obtain a where a: "cur = Finite a" using volume_level_Finite [OF assms(1)] by blast
  have "float_add cur vol \<noteq> NaN" using assms(3) a by (simp add: float_add_not_NaN)
  then obtain c where c: "(if float_le (Finite 1) (float_add cur vol) then Finite 1
                else if float_le (float_add cur vol) (Finite 0) then Finite 0
                else float_add cur vol) = Finite c" and lo: "0 \<le> c" and hi: "c \<le> 1"
    using clamp_cases by blast
  have "async_set_relative_volume_level s vol
          = async_set_volume_level
              (if float_le (Finite 1) (float_add cur vol) then Finite 1
               else if float_le (float_add cur vol) (Finite 0) then Finite 0
               else float_add cur vol)"
    using assms(1) assms(2)
    by (simp add: async_set_relative_volume_level_def and_then_def Let_def split del: if_split)
  then have run: "async_set_relative_volume_level s vol = async_set_volume_level (Finite c)"
    by (simp only: c)
  obtain n where "float_to_int (float_mul (Finite c) (Finite 100)) = Inr n"
    and "0 \<le> n" and "n \<le> 100"
    and "async_set_volume_level (Finite c) = Inr [Client (set_current_volume_level n)]"
    using set_volume_level_percent [OF lo hi] by blast
  then show ?thesis using c lo hi run by auto
qed

text \<open>
  C6. When a current volume level is known and non-zero (so that the command is issued),
  then for every offset that is a number (finite or infinite, not NaN) the level passed on
  to \<^verbatim>\<open>async_set_volume_level\<close> is the float sum of level and offset clamped as the code
  writes it: 1.0 when the sum is at least 1.0, 0.0 when it is at most 0, the sum itself
  otherwise. That level lies in the closed interval from 0 to 1, and the one client call
  that follows sends \<^verbatim>\<open>int\<close> of 100 times that level, between 0 and 100.
\<close>

theorem C6_relative_volume_clamped:
  assumes "volume_level s = Inr (Some cur)"
    and "cur \<noteq> Finite 0"
    and "vol \<noteq> NaN"
  shows "\<exists>c n. (if float_le (Finite 1) (float_add cur vol) then Finite 1
                else if float_le (float_add cur vol) (Finite 0) then Finite 0
                else float_add cur vol) = Finite c
             \<and> 0 \<le> c \<and> c \<le> 1
             \<and> async_set_relative_volume_level s vol = async_set_volume_level (Finite c)
             \<and> float_to_int (float_mul (Finite c) (Finite 100)) = Inr n
             \<and> 0 \<le> n \<and> n \<le> 100
             \<and> async_set_relative_volume_level s vol
                 = Inr [Client (set_current_volume_level n)]"
  using assms by (rule relative_volume_level_clamp)

lemma example_volume_levels:
  "volume_level (player_at 35 5 70) = Inr (Some (Finite (3152519739159347 / 2 ^ 53)))"
  "volume_level (player_at 90 5 70) = Inr (Some (Finite (8106479329266893 / 2 ^ 53)))"
  by (simp_all add: volume_level_def truthy_level_def player_at_def int_truediv_def
      and_then_def fl_eval)

text \<open>At level 35 the offset 0.1 gives the float 0.44999999999999996 and the client level
  44; at level 90 the offset 0.5 is clamped to 1.0 and an infinite negative offset to 0.0.\<close>

theorem C6_relative_volume_clamped_witness:
  "async_set_relative_volume_level (player_at 35 5 70) (Finite (3602879701896397 / 2 ^ 55))
     = Inr [Client (set_current_volume_level 44)]
   \<and> async_set_relative_volume_level (player_at 90 5 70) (Finite (1 / 2))
     = Inr [Client (set_current_volume_level 100)]
   \<and> async_set_relative_volume_level (player_at 90 5 70) NInf
     = Inr [Client (set_current_volume_level 0)]"
proof -
  let ?c35 = "Finite (3152519739159347 / 2 ^ 53)"
  let ?c90 = "Finite (8106479329266893 / 2 ^ 53)"
  let ?tenth = "Finite (3602879701896397 / 2 ^ 55)"
  have nz35: "?c35 \<noteq> Finite 0" and nz90: "?c90 \<noteq> Finite 0" by simp_all
  have s1: "float_add ?c35 ?tenth = Finite (2026619832316723 / 2 ^ 52)"
    by (simp add: fl_eval)
  have m1: "float_to_int (float_mul (Finite (2026619832316723 / 2 ^ 52)) (Finite 100)) = Inr 44"
    by (simp add: fl_eval)
  have s2: "float_add ?c90 (Finite (1 / 2)) = Finite (6305039478318694 / 2 ^ 52)"
    by (simp add: fl_eval)
  have m2: "float_to_int (float_mul (Finite 1) (Finite 100)) = Inr 100"
    by (simp add: fl_eval)
  have s3: "float_add ?c90 NInf = NInf"
    by simp
  have m3: "float_to_int (float_mul (Finite 0) (Finite 100)) = Inr 0"
    by (simp add: fl_eval)
  have r1: "async_set_relative_volume_level (player_at 35 5 70) ?tenth
              = Inr [Client (set_current_volume_level 44)]"
  proof -
    have "?tenth \<noteq> NaN" by simp
    then obtain c n where
      clamp: "(if float_le (Finite 1) (float_add ?c35 ?tenth) then Finite 1
               else if float_le (float_add ?c35 ?tenth) (Finite 0) then Finite 0
               else float_add ?c35 ?tenth) = Finite c"
      and conv: "float_to_int (float_mul (Finite c) (Finite 100)) = Inr n"
      and run: "async_set_relative_volume_level (player_at 35 5 70) ?tenth
                  = Inr [Client (set_current_volume_level n)]"
      using C6_relative_volume_clamped [OF example_volume_levels(1) nz35] by blast
    have cval: "c = 2026619832316723 / 2 ^ 52" using clamp unfolding s1 by simp
    have "float_to_int (float_mul (Finite (2026619832316723 / 2 ^ 52)) (Finite 100)) = Inr n"
      using conv by (simp only: cval)
    then have "Inr n = (Inr 44 :: error + int)" using m1 by (simp only:)
    then have "n = 44" by simp
    then show ?thesis using run by simp
  qed
  have r2: "async_set_relative_volume_level (player_at 90 5 70) (Finite (1 / 2))
              = Inr [Client (set_current_volume_level 100)]"
  proof -
    have "Finite (1 / 2) \<noteq> NaN" by simp
    then obtain c n where
      clamp: "(if float_le (Finite 1) (float_add ?c90 (Finite (1 / 2))) then Finite 1
               else if float_le (float_add ?c90 (Finite (1 / 2))) (Finite 0) then Finite 0
               else float_add ?c90 (Finite (1 / 2))) = Finite c"
      and conv: "float_to_int (float_mul (Finite c) (Finite 100)) = Inr n"
      and run: "async_set_relative_volume_level (player_at 90 5 70) (Finite (1 / 2))
                  = Inr [Client (set_current_volume_level n)]"
      using C6_relative_volume_clamped [OF example_volume_levels(2) nz90] by blast
    have cval: "c = 1" using clamp unfolding s2 by simp
    have "float_to_int (float_mul (Finite (1)) (Finite 100)) = Inr n"
      using conv by (simp only: cval)
    then have "Inr n = (Inr 100 :: error + int)" using m2 by (simp only:)
    then have "n = 100" by simp
    then show ?thesis using run by simp
  qed
  have r3: "async_set_relative_volume_level (player_at 90 5 70) NInf
              = Inr [Client (set_current_volume_level 0)]"
  proof -
    have "NInf \<noteq> NaN" by simp
    then obtain c n where
      clamp: "(if float_le (Finite 1) (float_add ?c90 NInf) then Finite 1
               else if float_le (float_add ?c90 NInf) (Finite 0) then Finite 0
               else float_add ?c90 NInf) = Finite c"
      and conv: "float_to_int (float_mul (Finite c) (Finite 100)) = Inr n"
      and run: "async_set_relative_volume_level (player_at 90 5 70) NInf
                  = Inr [Client (set_current_volume_level n)]"
      using C6_relative_volume_clamped [OF example_volume_levels(2) nz90] by blast
    have cval: "c = 0" using clamp unfolding s3 by simp
    have "float_to_int (float_mul (Finite (0)) (Finite 100)) = Inr n"
      using conv by (simp only: cval)
    then have "Inr n = (Inr 0 :: error + int)" using m3 by (simp only:)
    then have "n = 0" by simp
    then show ?thesis using run by simp
  qed
  show ?thesis using r1 r2 r3 by simp
qed

text \<open>Setting the volume to the float 0.29 sends 28. A NaN offset is not clamped: both
  comparisons are false, NaN is passed on, and \<^verbatim>\<open>int\<close> raises.\<close>

lemma set_volume_level_examples:
  "async_set_volume_level (Finite (5224175567749775 / 2 ^ 54))
     = Inr [Client (set_current_volume_level 28)]"
  "async_set_relative_volume_level (player_at 35 5 70) NaN = Inl ValueError"
  by (simp_all add: async_set_volume_level_def async_set_relative_volume_level_def
      example_volume_levels and_then_def fl_eval)

text \<open>
  C10. When the stored volume level is absent or 0, step up, step down and
  set-relative-volume each log the warning and issue no client call.
\<close>

theorem C10_unknown_or_zero_level_no_call:
  assumes "case level (volume s) of
             None \<Rightarrow> True
           | Some vl \<Rightarrow> vl_level vl = None \<or> vl_level vl = Some 0"
  shows "async_volume_up s = [Log WARNING ''Error setting volume'' []]
         \<and> async_volume_down s = [Log WARNING ''Error setting volume'' []]
         \<and> async_set_relative_volume_level s vol
             = Inr [Log WARNING ''Error setting volume'' []]"
proof -
  have "truthy_level (volume s) = None"
    using assms by (auto simp: truthy_level_def split: option.splits)
  then show ?thesis
    by (simp add: async_volume_up_def async_volume_down_def async_set_relative_volume_level_def
        volume_level_def and_then_def)
qed

theorem C10_unknown_or_zero_level_no_call_witness:
  "async_volume_up (player_at 0 5 70) = [Log WARNING ''Error setting volume'' []]
   \<and> async_volume_down (player_at 0 5 70) = [Log WARNING ''Error setting volume'' []]
   \<and> async_set_relative_volume_level (player_at 0 5 70) (Finite (3602879701896397 / 2 ^ 55))
       = Inr [Log WARNING ''Error setting volume'' []]"
proof -
  have h: "case level (volume (player_at 0 5 70)) of
             None \<Rightarrow> True
           | Some vl \<Rightarrow> vl_level vl = None \<or> vl_level vl = Some 0"
    by (simp add: player_at_def)
  show ?thesis using C10_unknown_or_zero_level_no_call [OF h, of "Finite (3602879701896397 / 2 ^ 55)"]
    by simp
qed

section \<open>Properties of the Beolink volume commands\<close>

text \<open>
  C3 (as amended). A device with a remote leader sends the volume string to the leader's
  volume (or relative-volume) topic and does nothing else. A device without a remote leader,
  given a volume string that \<^verbatim>\<open>float\<close> accepts, first acts locally and then sends the
  listener command \<^verbatim>\<open>set_volume_level\<close> (or \<^verbatim>\<open>set_relative_volume_level\<close>) with the
  same string to the listener-command topic of every known listener, in order. Locally,
  set-volume issues one client call with \<^verbatim>\<open>int\<close> of 100 times the float (and raises, with
  nothing sent, when that is no number). Set-relative-volume only logs the warning when no
  non-zero stored volume level is known; when one is known and the offset is not NaN, it
  issues one client call with \<^verbatim>\<open>int\<close> of 100 times the clamped sum, a level between 0
  and 100.
\<close>

theorem C3_beolink_volume:
  "(remote_leader s = Some ld \<longrightarrow>
      async_beolink_set_volume C str_float s v
        = Inr [Dispatcher_send (leader_jid ld @ ''_'' @ BEOLINK_VOLUME C) [v]]
      \<and> async_beolink_set_relative_volume C str_float s v
        = Inr [Dispatcher_send (leader_jid ld @ ''_'' @ BEOLINK_RELATIVE_VOLUME C) [v]])
   \<and> (remote_leader s = None \<and> str_float v = Some x \<longrightarrow>
      async_beolink_set_volume C str_float s v
        = (case float_to_int (float_mul x (Finite 100)) of
             Inl e \<Rightarrow> Inl e
           | Inr n \<Rightarrow>
               Inr (Client (set_current_volume_level n)
                    # map (\<lambda>l. Dispatcher_send (listener_jid l @ ''_'' @ BEOLINK_LISTENER_COMMAND C)
                              [''set_volume_level'', v])
                    (beolink_listeners s))))
   \<and> (remote_leader s = None \<and> str_float v = Some x \<and> volume_level s = Inr None \<longrightarrow>
      async_beolink_set_relative_volume C str_float s v
        = Inr (Log WARNING ''Error setting volume'' []
               # map (\<lambda>l. Dispatcher_send (listener_jid l @ ''_'' @ BEOLINK_LISTENER_COMMAND C)
                              [''set_relative_volume_level'', v])
                    (beolink_listeners s)))
   \<and> (remote_leader s = None \<and> str_float v = Some x \<and> x \<noteq> NaN
        \<and> volume_level s = Inr (Some cur) \<and> cur \<noteq> Finite 0 \<longrightarrow>
      (\<exists>c n. (if float_le (Finite 1) (float_add cur x) then Finite 1
                   else if float_le (float_add cur x) (Finite 0) then Finite 0
                   else float_add cur x) = Finite c
          \<and> float_to_int (float_mul (Finite c) (Finite 100)) = Inr n
          \<and> 0 \<le> n \<and> n \<le> 100
          \<and> async_beolink_set_relative_volume C str_float s v
              = Inr (Client (set_current_volume_level n)
                     # map (\<lambda>l. Dispatcher_send (listener_jid l @ ''_'' @ BEOLINK_LISTENER_COMMAND C)
                              [''set_relative_volume_level'', v])
                    (beolink_listeners s))))"
proof (intro conjI impI)
  assume "remote_leader s = Some ld"
  then show "async_beolink_set_volume C str_float s v
        = Inr [Dispatcher_send (leader_jid ld @ ''_'' @ BEOLINK_VOLUME C) [v]]"
    by (simp add: async_beolink_set_volume_def)
next
  assume "remote_leader s = Some ld"
  then show "async_beolink_set_relative_volume C str_float s v
        = Inr [Dispatcher_send (leader_jid ld @ ''_'' @ BEOLINK_RELATIVE_VOLUME C) [v]]"
    by (simp add: async_beolink_set_relative_volume_def)
next
  assume "remote_leader s = None \<and> str_float v = Some x"
  then show "async_beolink_set_volume C str_float s v
        = (case float_to_int (float_mul x (Finite 100)) of
             Inl e \<Rightarrow> Inl e
           | Inr n \<Rightarrow>
               Inr (Client (set_current_volume_level n)
                    # map (\<lambda>l. Dispatcher_send (listener_jid l @ ''_'' @ BEOLINK_LISTENER_COMMAND C)
                              [''set_volume_level'', v])
                    (beolink_listeners s)))"
    by (simp add: async_beolink_set_volume_def async_set_volume_level_def and_then_def
        split: sum.splits)
next
  assume "remote_leader s = None \<and> str_float v = Some x \<and> volume_level s = Inr None"
  then show "async_beolink_set_relative_volume C str_float s v
        = Inr (Log WARNING ''Error setting volume'' []
               # map (\<lambda>l. Dispatcher_send (listener_jid l @ ''_'' @ BEOLINK_LISTENER_COMMAND C)
                              [''set_relative_volume_level'', v])
                    (beolink_listeners s))"
    by (simp add: async_beolink_set_relative_volume_def async_set_relative_volume_level_def
        and_then_def)
next
  assume h: "remote_leader s = None \<and> str_float v = Some x \<and> x \<noteq> NaN
        \<and> volume_level s = Inr (Some cur) \<and> cur \<noteq> Finite 0"
  then have lv: "volume_level s = Inr (Some cur)" and nz: "cur \<noteq> Finite 0" and nn: "x \<noteq> NaN"
    by simp_all
  obtain c n where clamp: "(if float_le (Finite 1) (float_add cur x) then Finite 1
                   else if float_le (float_add cur x) (Finite 0) then Finite 0
                   else float_add cur x) = Finite c"
    and conv: "float_to_int (float_mul (Finite c) (Finite 100)) = Inr n"
    and lo: "0 \<le> n" and hi: "n \<le> 100"
    and run: "async_set_relative_volume_level s x = Inr [Client (set_current_volume_level n)]"
    using relative_volume_level_clamp [OF lv nz nn] by blast
  have "async_beolink_set_relative_volume C str_float s v
              = Inr (Client (set_current_volume_level n)
                     # map (\<lambda>l. Dispatcher_send (listener_jid l @ ''_'' @ BEOLINK_LISTENER_COMMAND C)
                              [''set_relative_volume_level'', v])
                    (beolink_listeners s))"
    using h run by (simp add: async_beolink_set_relative_volume_def and_then_def)
  then show "\<exists>c n. (if float_le (Finite 1) (float_add cur x) then Finite 1
                   else if float_le (float_add cur x) (Finite 0) then Finite 0
                   else float_add cur x) = Finite c
          \<and> float_to_int (float_mul (Finite c) (Finite 100)) = Inr n
          \<and> 0 \<le> n \<and> n \<le> 100
          \<and> async_beolink_set_relative_volume C str_float s v
              = Inr (Client (set_current_volume_level n)
                     # map (\<lambda>l. Dispatcher_send (listener_jid l @ ''_'' @ BEOLINK_LISTENER_COMMAND C)
                              [''set_relative_volume_level'', v])
                    (beolink_listeners s))"
    using clamp conv lo hi by blast
qed

text \<open>A listener forwards the string; a leader at level 35 asked for 0.35 sends 35 to the
  client, and asked for a relative change of 0.1 sends 44, the float sum being
  0.44999999999999996; each then sends the command on to its listener.\<close>

theorem C3_beolink_volume_witness:
  "async_beolink_set_volume example_constants example_float
       ((player_at 35 5 70)\<lparr>remote_leader := Some example_leader\<rparr>) ''0.5''
     = Inr [Dispatcher_send ''1111.2222222.55555555@products.bang-olufsen.com_BEOLINK_VOLUME''
              [''0.5'']]
   \<and> async_beolink_set_volume example_constants example_float
       ((player_at 35 5 70)\<lparr>beolink_listeners := [example_listener]\<rparr>) ''0.35''
     = Inr [Client (set_current_volume_level 35),
            Dispatcher_send
              ''1111.2222222.44444444@products.bang-olufsen.com_BEOLINK_LISTENER_COMMAND''
              [''set_volume_level'', ''0.35'']]
   \<and> async_beolink_set_relative_volume example_constants example_float
       ((player_at 35 5 70)\<lparr>beolink_listeners := [example_listener]\<rparr>) ''0.1''
     = Inr [Client (set_current_volume_level 44),
            Dispatcher_send
              ''1111.2222222.44444444@products.bang-olufsen.com_BEOLINK_LISTENER_COMMAND''
              [''set_relative_volume_level'', ''0.1'']]"
proof -
  let ?listener = "(player_at 35 5 70)\<lparr>remote_leader := Some example_leader\<rparr>"
  let ?leader = "(player_at 35 5 70)\<lparr>beolink_listeners := [example_listener]\<rparr>"
  let ?c35 = "Finite (3152519739159347 / 2 ^ 53)"
  let ?tenth = "Finite (3602879701896397 / 2 ^ 55)"
  have a: "remote_leader ?listener = Some example_leader" by simp
  have b: "remote_leader ?leader = None \<and> example_float ''0.35'' = Some ?c35"
    by (simp add: player_at_def example_player_def example_float_def)
  have c: "remote_leader ?leader = None \<and> example_float ''0.1'' = Some ?tenth \<and> ?tenth \<noteq> NaN
           \<and> volume_level ?leader = Inr (Some ?c35) \<and> ?c35 \<noteq> Finite 0"
    by (simp add: player_at_def example_player_def example_float_def volume_level_def
        truthy_level_def int_truediv_def and_then_def fl_eval)
  have m0: "float_to_int (float_mul ?c35 (Finite 100)) = Inr 35"
    by (simp add: fl_eval)
  have s1: "float_add ?c35 ?tenth = Finite (2026619832316723 / 2 ^ 52)"
    by (simp add: fl_eval)
  have m1: "float_to_int (float_mul (Finite (2026619832316723 / 2 ^ 52)) (Finite 100)) = Inr 44"
    by (simp add: fl_eval)
  have d: "map (\<lambda>l. Dispatcher_send
                        (listener_jid l @ ''_'' @ BEOLINK_LISTENER_COMMAND example_constants) args)
             (beolink_listeners ?leader)
           = [Dispatcher_send
                ''1111.2222222.44444444@products.bang-olufsen.com_BEOLINK_LISTENER_COMMAND''
                args]" for args
    by (simp add: example_listener_def example_constants_def)
  have r1: "async_beolink_set_volume example_constants example_float ?listener ''0.5''
     = Inr [Dispatcher_send ''1111.2222222.55555555@products.bang-olufsen.com_BEOLINK_VOLUME''
              [''0.5'']]"
    using a C3_beolink_volume [of ?listener example_leader example_constants example_float "''0.5''"]
    by (simp add: example_leader_def example_constants_def)
  have r2: "async_beolink_set_volume example_constants example_float ?leader ''0.35''
     = Inr [Client (set_current_volume_level 35),
            Dispatcher_send
              ''1111.2222222.44444444@products.bang-olufsen.com_BEOLINK_LISTENER_COMMAND''
              [''set_volume_level'', ''0.35'']]"
  proof -
    have "async_beolink_set_volume example_constants example_float ?leader ''0.35''
            = (case float_to_int (float_mul ?c35 (Finite 100)) of
                 Inl e \<Rightarrow> Inl e
               | Inr n \<Rightarrow>
                   Inr (Client (set_current_volume_level n)
                        # map (\<lambda>l. Dispatcher_send
                                      (listener_jid l @ ''_'' @ BEOLINK_LISTENER_COMMAND example_constants)
                                      [''set_volume_level'', ''0.35''])
                            (beolink_listeners ?leader)))"
      using b C3_beolink_volume [of ?leader _ example_constants example_float "''0.35''" ?c35]
      by blast
    then show ?thesis unfolding m0 d by simp
  qed
  have r3: "async_beolink_set_relative_volume example_constants example_float ?leader ''0.1''
     = Inr [Client (set_current_volume_level 44),
            Dispatcher_send
              ''1111.2222222.44444444@products.bang-olufsen.com_BEOLINK_LISTENER_COMMAND''
              [''set_relative_volume_level'', ''0.1'']]"
  proof -
    obtain c' n where
      clamp: "(if float_le (Finite 1) (float_add ?c35 ?tenth) then Finite 1
               else if float_le (float_add ?c35 ?tenth) (Finite 0) then Finite 0
               else float_add ?c35 ?tenth) = Finite c'"
      and conv: "float_to_int (float_mul (Finite c') (Finite 100)) = Inr n"
      and run: "async_beolink_set_relative_volume example_constants example_float ?leader ''0.1''
                  = Inr (Client (set_current_volume_level n)
                         # map (\<lambda>l. Dispatcher_send
                                       (listener_jid l @ ''_'' @ BEOLINK_LISTENER_COMMAND example_constants)
                                       [''set_relative_volume_level'', ''0.1''])
                             (beolink_listeners ?leader))"
      using c C3_beolink_volume [of ?leader _ example_constants example_float "''0.1''" ?tenth ?c35]
      by blast
    have cval: "c' = 2026619832316723 / 2 ^ 52" using clamp unfolding s1 by simp
    have "float_to_int (float_mul (Finite (2026619832316723 / 2 ^ 52)) (Finite 100)) = Inr n"
      using conv by (simp only: cval)
    then have "Inr n = (Inr 44 :: error + int)" using m1 by (simp only:)
    then have "n = 44" by simp
    then show ?thesis using run unfolding d by simp
  qed
  show ?thesis using r1 r2 r3 by simp
qed

text \<open>
  C3 as stated fails: a device without a remote leader and without a known stored volume
  level, asked for a relative volume change, issues no client call (it only logs the
  warning), and still sends the command on to its listener.
\<close>

theorem C3_beolink_volume_counterexample:
  "remote_leader (example_player\<lparr>beolink_listeners := [example_listener]\<rparr>) = None
   \<and> async_beolink_set_relative_volume example_constants example_float
       (example_player\<lparr>beolink_listeners := [example_listener]\<rparr>) ''0.1''
     = Inr [Log WARNING ''Error setting volume'' [],
            Dispatcher_send
              ''1111.2222222.44444444@products.bang-olufsen.com_BEOLINK_LISTENER_COMMAND''
              [''set_relative_volume_level'', ''0.1'']]"
  by (simp add: async_beolink_set_relative_volume_def async_set_relative_volume_level_def
      volume_level_def truthy_level_def and_then_def
      example_player_def example_listener_def example_constants_def example_float_def)

section \<open>Properties of source selection\<close>

lemma py_index_filter_first:
  assumes "x \<in> set xs" and "P x"
  shows "\<exists>y. py_index (filter P xs) 0 = Inr y \<and> y \<in> set xs \<and> P y"
proof -
  have "x \<in> set (filter P xs)" using assms by simp
  then obtain y ys where f: "filter P xs = y # ys" by (cases "filter P xs") auto
  then have "y \<in> set (filter P xs)" by simp
  then have "y \<in> set xs \<and> P y" by simp
  then show ?thesis using f by simp
qed

text \<open>
  C8. With the source catalog a dict (distinct keys): a label that is not among its values
  gives one error log, no client call, no exception and the unchanged entity; a label that
  is among them gives exactly one client call with a key of that label, \<^verbatim>\<open>set_active_source\<close>
  when the label is among the values of the audio catalog and \<^verbatim>\<open>post_remote_trigger\<close>
  otherwise, again with the entity unchanged.
\<close>

theorem C8_select_source:
  assumes "distinct (dict_keys (sources s))"
  shows "(src \<notin> set (dict_values (sources s)) \<longrightarrow>
            async_select_source s src
              = Inr (s, [Log ERROR ''Invalid source: %s. Valid sources are: %s''
                           (src # dict_values (sources s))]))
         \<and> (src \<in> set (dict_values (sources s)) \<longrightarrow>
              (\<exists>key. (key, src) \<in> set (sources s)
                 \<and> async_select_source s src
                     = Inr (s, [Client (if src \<in> set (dict_values (audio_sources s))
                                        then set_active_source key
                                        else post_remote_trigger key)])))"
proof (intro conjI impI)
  assume "src \<notin> set (dict_values (sources s))"
  then show "async_select_source s src
              = Inr (s, [Log ERROR ''Invalid source: %s. Valid sources are: %s''
                           (src # dict_values (sources s))])"
    by (simp add: async_select_source_def)
next
  assume mem: "src \<in> set (dict_values (sources s))"
  then obtain k where k: "(k, src) \<in> set (sources s)"
    by (auto simp: dict_values_def)
  have d: "distinct (map fst (sources s))" using assms by (simp add: dict_keys_def)
  have look: "map_of (sources s) k = Some src" using d k by (rule map_of_is_SomeI)
  have kin: "k \<in> set (dict_keys (sources s))" using k by (force simp: dict_keys_def)
  obtain key where key: "py_index [x \<leftarrow> dict_keys (sources s). map_of (sources s) x = Some src] 0 = Inr key"
    and "key \<in> set (dict_keys (sources s))" and kl: "map_of (sources s) key = Some src"
    using py_index_filter_first [OF kin, of "\<lambda>x. map_of (sources s) x = Some src"] look by blast
  have pair: "(key, src) \<in> set (sources s)" using kl by (rule map_of_SomeD)
  have "async_select_source s src
          = Inr (s, [Client (if src \<in> set (dict_values (audio_sources s))
                             then set_active_source key else post_remote_trigger key)])"
    using mem key by (simp add: async_select_source_def and_then_def)
  then show "\<exists>key. (key, src) \<in> set (sources s)
                 \<and> async_select_source s src
                     = Inr (s, [Client (if src \<in> set (dict_values (audio_sources s))
                                        then set_active_source key
                                        else post_remote_trigger key)])"
    using pair by blast
qed

theorem C8_select_source_witness:
  "async_select_source example_player ''Radio'' 
     = Inr (example_player, [Log ERROR ''Invalid source: %s. Valid sources are: %s''
                           [''Radio'', ''Spotify Connect'', ''Line-In'', ''HDMI A'']])
   \<and> async_select_source example_player ''Line-In''
       = Inr (example_player, [Client (set_active_source ''lineIn'')])
   \<and> async_select_source example_player ''HDMI A''
       = Inr (example_player, [Client (post_remote_trigger ''HdmiIn:1'')])"
proof -
  have d: "distinct (dict_keys (sources example_player))"
    by (simp add: example_player_def dict_keys_def)
  have a: "audio_sources example_player = [(''spotify'', ''Spotify Connect''), (''lineIn'', ''Line-In'')]"
    by (simp add: example_player_def)
  have s: "sources example_player = [(''spotify'', ''Spotify Connect''), (''lineIn'', ''Line-In''),
                 (''HdmiIn:1'', ''HDMI A'')]"
    by (simp add: example_player_def)
  show ?thesis
    using C8_select_source [OF d, of "''Radio''"] C8_select_source [OF d, of "''Line-In''"]
      C8_select_source [OF d, of "''HDMI A''"]
    by (auto simp: a s dict_values_def)
qed

section \<open>Properties of joining a group\<close>

lemma beolink_expand_concat:
  "beolink_expand jids = concat (map (\<lambda>jid. [Client (post_beolink_expand jid), Sleep 1]) jids)"
  by (induction jids) simp_all

lemma join_loop_result:
  "map (get_beolink_jid C H) group_members = map Inr rs \<Longrightarrow>
   join_loop C H group_members (jids, logged)
     = Inr (jids @ [j. Some j \<leftarrow> rs],
            logged @ map (\<lambda>g. Log WARNING ''Error adding %s to group'' [g])
                       [g \<leftarrow> group_members. get_beolink_jid C H g = Inr None])"
proof (induction group_members arbitrary: rs jids logged)
  case Nil
  then show ?case by simp
next
  case (Cons g rest)
  then obtain r rs' where rs: "rs = r # rs'" by (cases rs) auto
  have g: "get_beolink_jid C H g = Inr r" using Cons.prems rs by simp
  have rest: "map (get_beolink_jid C H) rest = map Inr rs'" using Cons.prems rs by simp
  show ?case
  proof (cases r)
    case None
    then show ?thesis using g rs Cons.IH [OF rest] by (simp add: and_then_def)
  next
    case (Some j)
    then show ?thesis using g rs Cons.IH [OF rest] by (simp add: and_then_def)
  qed
qed

text \<open>
  C7 (as amended). An empty target list gives exactly one
  \<^verbatim>\<open>join_latest_beolink_experience\<close> call and nothing else. For a non-empty list whose
  targets all have a registry entry and a config entry: each target whose config entry has
  no JID is skipped with a warning, the others are still processed; when every collected
  JID is valid, one task is created that issues one expand request per collected JID, in
  order, each followed by a sleep of one second; when some collected JID is invalid, an
  error is logged for the first such JID and no expand request is issued at all.
\<close>

theorem C7_join_players:
  "async_join_players C check_valid_jid H [] = Inr [Client join_latest_beolink_experience]
   \<and> (group_members \<noteq> [] \<and> map (get_beolink_jid C H) group_members = map Inr rs \<longrightarrow>
        async_join_players C check_valid_jid H group_members
          = Inr (map (\<lambda>g. Log WARNING ''Error adding %s to group'' [g])
                   [g \<leftarrow> group_members. get_beolink_jid C H g = Inr None]
                 @ (case find (\<lambda>jid. \<not> check_valid_jid jid) [j. Some j \<leftarrow> rs] of
                      None \<Rightarrow>
                        [Create_task
                           (concat (map (\<lambda>jid. [Client (post_beolink_expand jid), Sleep 1])
                                      [j. Some j \<leftarrow> rs]))]
                    | Some jid \<Rightarrow> [Log ERROR ''Invalid Beolink JID: %s'' [jid]])))"
proof (intro conjI impI)
  show "async_join_players C check_valid_jid H [] = Inr [Client join_latest_beolink_experience]"
    by (simp add: async_join_players_def async_beolink_join_def)
next
  assume h: "group_members \<noteq> [] \<and> map (get_beolink_jid C H) group_members = map Inr rs"
  then have loop: "join_loop C H group_members ([], [])
     = Inr ([] @ [j. Some j \<leftarrow> rs],
            [] @ map (\<lambda>g. Log WARNING ''Error adding %s to group'' [g])
                       [g \<leftarrow> group_members. get_beolink_jid C H g = Inr None])"
    by (intro join_loop_result) simp
  show "async_join_players C check_valid_jid H group_members
          = Inr (map (\<lambda>g. Log WARNING ''Error adding %s to group'' [g])
                   [g \<leftarrow> group_members. get_beolink_jid C H g = Inr None]
                 @ (case find (\<lambda>jid. \<not> check_valid_jid jid) [j. Some j \<leftarrow> rs] of
                      None \<Rightarrow>
                        [Create_task
                           (concat (map (\<lambda>jid. [Client (post_beolink_expand jid), Sleep 1])
                                      [j. Some j \<leftarrow> rs]))]
                    | Some jid \<Rightarrow> [Log ERROR ''Invalid Beolink JID: %s'' [jid]]))"
    using h loop
    by (simp add: async_join_players_def and_then_def async_beolink_expand_def
        beolink_expand_concat split: option.splits)
qed

lemma example_get_beolink_jid:
  "get_beolink_jid example_constants example_hass ''media_player.beosound_b''
     = Inr (Some ''1111.2222222.44444444@products.bang-olufsen.com'')"
  "get_beolink_jid example_constants example_hass ''media_player.tv'' = Inr None"
  "get_beolink_jid example_constants example_hass ''media_player.old'' = Inr (Some ''bad'')"
  by (simp_all add: get_beolink_jid_def example_hass_def example_constants_def)

theorem C7_join_players_witness:
  "async_join_players example_constants example_check_valid_jid example_hass
       [''media_player.beosound_b'', ''media_player.tv'']
     = Inr [Log WARNING ''Error adding %s to group'' [''media_player.tv''],
            Create_task
              [Client (post_beolink_expand ''1111.2222222.44444444@products.bang-olufsen.com''),
               Sleep 1]]"
proof -
  have h: "[''media_player.beosound_b'', ''media_player.tv''] \<noteq> []
           \<and> map (get_beolink_jid example_constants example_hass)
                 [''media_player.beosound_b'', ''media_player.tv'']
               = map Inr [Some ''1111.2222222.44444444@products.bang-olufsen.com'', None]"
    by (simp add: example_get_beolink_jid)
  show ?thesis
    using h C7_join_players [of example_constants example_check_valid_jid example_hass
        "[''media_player.beosound_b'', ''media_player.tv'']"
        "[Some ''1111.2222222.44444444@products.bang-olufsen.com'', None]"]
    by (simp add: example_get_beolink_jid example_check_valid_jid_def)
qed

text \<open>
  C7 as stated fails: of two targets that both resolve to an identifier, the second to a
  malformed one, neither receives an expand request; the request for the first, well-formed
  target is not issued either.
\<close>

theorem C7_join_players_counterexample:
  "get_beolink_jid example_constants example_hass ''media_player.beosound_b''
     = Inr (Some ''1111.2222222.44444444@products.bang-olufsen.com'')
   \<and> example_check_valid_jid ''1111.2222222.44444444@products.bang-olufsen.com''
   \<and> async_join_players example_constants example_check_valid_jid example_hass
        [''media_player.beosound_b'', ''media_player.old'']
      = Inr [Log ERROR ''Invalid Beolink JID: %s'' [''bad'']]"
  by (simp add: async_join_players_def and_then_def async_beolink_expand_def
      example_get_beolink_jid example_check_valid_jid_def)

text \<open>A target that is not in the entity registry is not skipped: the attribute access on
  \<^verbatim>\<open>None\<close> raises, and the targets after it are not processed.\<close>

lemma join_players_unknown_entity:
  "async_join_players example_constants example_check_valid_jid example_hass
     [''media_player.unknown'', ''media_player.beosound_b'']
   = Inl AttributeError"
  by (simp add: async_join_players_def and_then_def get_beolink_jid_def example_hass_def)

section \<open>Properties of the Beolink group state\<close>

lemma listeners_loop_result:
  "map (\<lambda>l. unique_id_from_jid (listener_jid l)) ls = map Inr us \<Longrightarrow>
   \<exists>names'. listeners_loop H peers ls (group_members, names)
               = Inr (group_members @ map (async_get_entity_id H) us, names')"
proof (induction ls arbitrary: us group_members names)
  case Nil
  then show ?case by simp
next
  case (Cons l rest)
  then obtain u us' where us: "us = u # us'" by (cases us) auto
  have l: "unique_id_from_jid (listener_jid l) = Inr u" using Cons.prems us by simp
  have rest: "map (\<lambda>l. unique_id_from_jid (listener_jid l)) rest = map Inr us'"
    using Cons.prems us by simp
  have step: "get_entity_id_from_jid H (listener_jid l) = Inr (async_get_entity_id H u)"
    using l by (simp add: get_entity_id_from_jid_def and_then_def)
  show ?case
    using Cons.IH [OF rest, of "group_members @ [async_get_entity_id H u]"] step us
    by (simp add: and_then_def)
qed

text \<open>The leader branch of \<^verbatim>\<open>_update_beolink\<close>: what the group-members list is made of, one
  registry lookup for the device itself and one for each listener.\<close>

lemma leader_group_members_lookups:
  assumes "pcm_remote_leader (playback_metadata s) = None
           \<or> source C s \<in> {Some (lineIn C), Some (uriStreamer C)}"
    and "listeners \<noteq> []"
    and "unique_id_from_jid (beolink_jid s) = Inr u0"
    and "map (\<lambda>l. unique_id_from_jid (listener_jid l)) listeners = map Inr us"
  shows "\<exists>s'. update_beolink C H peers listeners s = Inr s'
           \<and> remote_leader s' = None
           \<and> beolink_listeners s' = listeners
           \<and> attr_group_members s'
               = async_get_entity_id H u0 # map (async_get_entity_id H) us"
proof -
  have leader: "(if source C s \<in> {Some (lineIn C), Some (uriStreamer C)} then None
                 else pcm_remote_leader (playback_metadata s)) = None"
    using assms(1) by auto
  have self: "get_entity_id_from_jid H (beolink_jid s) = Inr (async_get_entity_id H u0)"
    using assms(3) by (simp add: get_entity_id_from_jid_def and_then_def)
  obtain names' where loop:
    "listeners_loop H peers listeners ([async_get_entity_id H u0], [])
       = Inr ([async_get_entity_id H u0] @ map (async_get_entity_id H) us, names')"
    using listeners_loop_result [OF assms(4)] by blast
  show ?thesis
    unfolding update_beolink_def Let_def leader
    using assms(2) loop
    by (simp add: self and_then_def)
qed

lemma example_unique_ids:
  "unique_id_from_jid ''1111.2222222.33333333@products.bang-olufsen.com'' = Inr ''33333333''"
  "unique_id_from_jid ''1111.2222222.44444444@products.bang-olufsen.com'' = Inr ''44444444''"
  "unique_id_from_jid ''1111.2222222.55555555@products.bang-olufsen.com'' = Inr ''55555555''"
  "unique_id_from_jid ''1111.2222222.66666666@products.bang-olufsen.com'' = Inr ''66666666''"
  by (simp_all add: unique_id_from_jid_def and_then_def numeral_2_eq_2)

lemma example_entity_ids:
  "async_get_entity_id example_hass ''33333333'' = Some ''media_player.beosound_a''"
  "async_get_entity_id example_hass ''44444444'' = Some ''media_player.beosound_b''"
  "async_get_entity_id example_hass ''55555555'' = Some ''media_player.kitchen''"
  "async_get_entity_id example_hass ''66666666'' = None"
  by (simp_all add: example_hass_def)

text \<open>When the device itself and every listener resolve to a registry entity, the group
  members are the device's own entity id and then the entity ids of all N listeners.\<close>

lemma leader_group_members_resolved:
  assumes "pcm_remote_leader (playback_metadata s) = None
           \<or> source C s \<in> {Some (lineIn C), Some (uriStreamer C)}"
    and "listeners \<noteq> []"
    and "unique_id_from_jid (beolink_jid s) = Inr u0"
    and "map (\<lambda>l. unique_id_from_jid (listener_jid l)) listeners = map Inr us"
    and "async_get_entity_id H u0 = Some self_id"
    and "map (async_get_entity_id H) us = map Some ids"
  shows "\<exists>s'. update_beolink C H peers listeners s = Inr s'
           \<and> remote_leader s' = None
           \<and> beolink_listeners s' = listeners
           \<and> attr_group_members s' = map Some (self_id # ids)
           \<and> length (attr_group_members s') = Suc (length listeners)"
proof -
  have len: "length ids = length listeners"
    using assms(4) assms(6) by (metis length_map)
  show ?thesis
    using leader_group_members_lookups [OF assms(1) assms(2) assms(3) assms(4), of H peers]
      assms(5) assms(6) len
    by auto
qed

text \<open>
  C1. The claim asks that a listener JID without a registry entity be left out of the
  group-members list. The code does not do that: for the device \<open>example_player\<close> with no
  remote leader and two listeners, of which the second has no registry entity, the
  recomputed group-members list has three entries and the third is null.
\<close>

theorem C1_unresolved_listener_null_entry:
  "update_beolink example_constants example_hass []
     [example_listener, example_stranger] example_player
   = Inr (example_player
            \<lparr>beolink_listeners := [example_listener, example_stranger],
             remote_leader := None,
             attr_group_members :=
               [Some ''media_player.beosound_a'', Some ''media_player.beosound_b'', None],
             beolink_attribute :=
               Some \<lparr>attr_self = (''Living room'',
                                   ''1111.2222222.33333333@products.bang-olufsen.com''),
                     attr_peers = None, attr_leader = None, attr_listeners = Some []\<rparr>\<rparr>)"
proof -
  have self: "get_entity_id_from_jid example_hass
                  ''1111.2222222.33333333@products.bang-olufsen.com''
                = Inr (Some ''media_player.beosound_a'')"
    by (simp add: get_entity_id_from_jid_def and_then_def example_unique_ids example_entity_ids)
  have l1: "get_entity_id_from_jid example_hass (listener_jid example_listener)
                = Inr (Some ''media_player.beosound_b'')"
    by (simp add: get_entity_id_from_jid_def and_then_def example_listener_def
        example_unique_ids example_entity_ids)
  have l2: "get_entity_id_from_jid example_hass (listener_jid example_stranger) = Inr None"
    by (simp add: get_entity_id_from_jid_def and_then_def example_stranger_def
        example_unique_ids example_entity_ids)
  have leader: "(if source example_constants example_player
                       \<in> {Some (lineIn example_constants), Some (uriStreamer example_constants)}
                 then None
                 else pcm_remote_leader (playback_metadata example_player)) = None"
    by (simp add: example_player_def)
  have names: "friendly_name example_player = ''Living room''
               \<and> beolink_jid example_player = ''1111.2222222.33333333@products.bang-olufsen.com''"
    by (simp add: example_player_def)
  show ?thesis
    unfolding update_beolink_def Let_def leader
    by (simp add: self l1 l2 and_then_def names)
qed

lemma update_artwork_frame:
  assumes "update_artwork str_int C s = Inr s1"
  shows "playback_metadata s1 = playback_metadata s \<and> source_change s1 = source_change s
         \<and> beolink_jid s1 = beolink_jid s"
  using assms
  by (auto simp: update_artwork_def and_then_def split: option.splits list.splits sum.splits)

lemma listener_branch:
  assumes "(if source C s \<in> {Some (lineIn C), Some (uriStreamer C)} then None
            else pcm_remote_leader (playback_metadata s)) = Some ld"
    and "unique_id_from_jid (leader_jid ld) = Inr u1"
    and "unique_id_from_jid (beolink_jid s) = Inr u0"
  shows "\<exists>s'. update_beolink C H peers listeners s = Inr s'
           \<and> remote_leader s' = Some ld
           \<and> attr_group_members s' = [async_get_entity_id H u1, async_get_entity_id H u0]"
proof -
  have l: "get_entity_id_from_jid H (leader_jid ld) = Inr (async_get_entity_id H u1)"
    using assms(2) by (simp add: get_entity_id_from_jid_def and_then_def)
  have self: "get_entity_id_from_jid H (beolink_jid s) = Inr (async_get_entity_id H u0)"
    using assms(3) by (simp add: get_entity_id_from_jid_def and_then_def)
  show ?thesis
    unfolding update_beolink_def Let_def assms(1)
    by (simp add: l self and_then_def)
qed

text \<open>
  C2 (as amended). For a playback-metadata update whose remote leader is non-null, whose
  artwork update succeeds and after which the source is neither line-in nor the URI
  streamer, with the leader's and the device's own JID resolving to registry entities: the
  update returns, the stored remote leader is the one of the metadata, and the
  group-members list has exactly two entries, the leader's entity id and then the device's
  own entity id.
\<close>

theorem C2_listener_group_members:
  assumes "pcm_remote_leader data = Some ld"
    and "update_artwork str_int C (s\<lparr>playback_metadata := data\<rparr>) = Inr s1"
    and "source C (s\<lparr>playback_metadata := data\<rparr>) \<notin> {Some (lineIn C), Some (uriStreamer C)}"
    and "unique_id_from_jid (leader_jid ld) = Inr u1"
    and "async_get_entity_id H u1 = Some leader_id"
    and "unique_id_from_jid (beolink_jid s) = Inr u0"
    and "async_get_entity_id H u0 = Some self_id"
  shows "\<exists>s'. update_playback_metadata str_int C H peers listeners data s
                = Inr (s', [Write_ha_state])
           \<and> remote_leader s' = Some ld
           \<and> attr_group_members s' = [Some leader_id, Some self_id]"
proof -
  have frame: "playback_metadata s1 = data \<and> source_change s1 = source_change s
               \<and> beolink_jid s1 = beolink_jid s"
    using update_artwork_frame [OF assms(2)] by simp
  have src: "source C s1 = source C (s\<lparr>playback_metadata := data\<rparr>)"
    using frame by (simp add: source_def split: option.splits)
  have leader: "(if source C s1 \<in> {Some (lineIn C), Some (uriStreamer C)} then None
                 else pcm_remote_leader (playback_metadata s1)) = Some ld"
    using assms(1) assms(3) frame src by simp
  have self: "unique_id_from_jid (beolink_jid s1) = Inr u0"
    using assms(6) frame by simp
  obtain s' where "update_beolink C H peers listeners s1 = Inr s'"
    and "remote_leader s' = Some ld"
    and "attr_group_members s' = [async_get_entity_id H u1, async_get_entity_id H u0]"
    using listener_branch [OF leader assms(4) self] by blast
  then show ?thesis
    using assms(2) assms(5) assms(7) by (simp add: update_playback_metadata_def and_then_def)
qed

theorem C2_listener_group_members_witness:
  "\<exists>s'. update_playback_metadata example_int example_constants example_hass [] []
            example_metadata example_player
          = Inr (s', [Write_ha_state])
        \<and> remote_leader s' = Some example_leader
        \<and> attr_group_members s'
            = [Some ''media_player.kitchen'', Some ''media_player.beosound_a'']"
proof -
  have a: "pcm_remote_leader example_metadata = Some example_leader"
    by (simp add: example_metadata_def)
  have b: "update_artwork example_int example_constants
             (example_player\<lparr>playback_metadata := example_metadata\<rparr>)
           = Inr (example_player\<lparr>playback_metadata := example_metadata,
                                   media_image := empty_art\<rparr>)"
    by (simp add: update_artwork_def example_metadata_def)
  have c: "source example_constants (example_player\<lparr>playback_metadata := example_metadata\<rparr>)
             \<notin> {Some (lineIn example_constants), Some (uriStreamer example_constants)}"
    by (simp add: source_def example_metadata_def example_player_def example_constants_def)
  have d: "unique_id_from_jid (leader_jid example_leader) = Inr ''55555555''"
    by (simp add: example_leader_def example_unique_ids)
  have e: "unique_id_from_jid (beolink_jid example_player) = Inr ''33333333''"
    by (simp add: example_player_def example_unique_ids)
  have d': "async_get_entity_id example_hass ''55555555'' = Some ''media_player.kitchen''"
    by (simp add: example_entity_ids)
  have e': "async_get_entity_id example_hass ''33333333'' = Some ''media_player.beosound_a''"
    by (simp add: example_entity_ids)
  show ?thesis
    by (rule C2_listener_group_members [OF a b c d d' e e'])
qed

text \<open>
  C2 as stated fails: a metadata update with a non-null remote leader and the title of
  line-in makes the source line-in, so the recomputation discards the remote leader; with
  no listeners the device is then solo, with a null stored leader and no group members.
\<close>

theorem C2_listener_group_members_counterexample:
  "pcm_remote_leader example_line_in_metadata = Some example_leader
   \<and> update_playback_metadata example_int example_constants example_hass [] []
        example_line_in_metadata example_player
     = Inr (example_player
              \<lparr>playback_metadata := example_line_in_metadata,
               media_image := empty_art,
               beolink_listeners := [],
               remote_leader := None,
               attr_group_members := [],
               beolink_attribute :=
                 Some \<lparr>attr_self = (''Living room'',
                                     ''1111.2222222.33333333@products.bang-olufsen.com''),
                       attr_peers = None, attr_leader = None, attr_listeners = None\<rparr>\<rparr>,
            [Write_ha_state])"
proof -
  have art: "update_artwork example_int example_constants
             (example_player\<lparr>playback_metadata := example_line_in_metadata\<rparr>)
           = Inr (example_player\<lparr>playback_metadata := example_line_in_metadata,
                                   media_image := empty_art\<rparr>)"
    by (simp add: update_artwork_def example_line_in_metadata_def)
  have leader: "(if source example_constants
                       (example_player\<lparr>playback_metadata := example_line_in_metadata,
                                       media_image := empty_art\<rparr>)
                       \<in> {Some (lineIn example_constants), Some (uriStreamer example_constants)}
                 then None
                 else pcm_remote_leader
                        (playback_metadata
                           (example_player\<lparr>playback_metadata := example_line_in_metadata,
                                           media_image := empty_art\<rparr>))) = None"
    by (simp add: source_def example_line_in_metadata_def example_constants_def)
  have names: "friendly_name example_player = ''Living room''
               \<and> beolink_jid example_player = ''1111.2222222.33333333@products.bang-olufsen.com''"
    by (simp add: example_player_def)
  have beo: "update_beolink example_constants example_hass [] []
               (example_player\<lparr>playback_metadata := example_line_in_metadata,
                               media_image := empty_art\<rparr>)
             = Inr (example_player
              \<lparr>playback_metadata := example_line_in_metadata,
               media_image := empty_art,
               beolink_listeners := [],
               remote_leader := None,
               attr_group_members := [],
               beolink_attribute :=
                 Some \<lparr>attr_self = (''Living room'',
                                     ''1111.2222222.33333333@products.bang-olufsen.com''),
                       attr_peers = None, attr_leader = None, attr_listeners = None\<rparr>\<rparr>)"
    unfolding update_beolink_def Let_def leader by (simp add: names)
  have leader_set: "pcm_remote_leader example_line_in_metadata = Some example_leader"
    by (simp add: example_line_in_metadata_def)
  show ?thesis
    using leader_set by (simp add: update_playback_metadata_def and_then_def art beo)
qed

section \<open>Properties of the listening-position catalog\<close>

lemma dict_set_fresh: "k \<notin> set (dict_keys d) \<Longrightarrow> dict_set d k v = d @ [(k, v)]"
  by (induction d) (auto simp: dict_keys_def)

lemma map_of_dict_set_same: "map_of (dict_set d k v) k = Some v"
  by (induction d) auto

lemma positions_loop_step_other:
  "\<not> is_listening_position scene \<Longrightarrow>
   positions_loop active ((scene_key, scene) # rest) e logged
     = positions_loop active rest e logged"
  by simp

lemma positions_loop_step_duplicate:
  "is_listening_position scene \<Longrightarrow> label scene = Some lbl \<Longrightarrow>
   lbl \<in> set (dict_keys (listening_positions e)) \<Longrightarrow>
   positions_loop active ((scene_key, scene) # rest) e logged
     = positions_loop active rest e (logged @ [Log WARNING
            ''Ignoring listening position with duplicate name: %s and ID: %s''
            [lbl, scene_key]])"
  by simp

lemma positions_loop_step_new:
  "is_listening_position scene \<Longrightarrow> label scene = Some lbl \<Longrightarrow>
   lbl \<notin> set (dict_keys (listening_positions e)) \<Longrightarrow>
   action_list scene = action # actions \<Longrightarrow>
   \<exists>cur. positions_loop active ((scene_key, scene) # rest) e logged
           = positions_loop active rest
               (e\<lparr>listening_positions := listening_positions e @ [(lbl, scene_key)],
                  attr_current_option := cur\<rparr>)
               logged"
proof (cases "group_id active = speaker_group_id action")
  case True
  assume "is_listening_position scene" "label scene = Some lbl"
    "lbl \<notin> set (dict_keys (listening_positions e))" "action_list scene = action # actions"
  then have "positions_loop active ((scene_key, scene) # rest) e logged
           = positions_loop active rest
               (e\<lparr>listening_positions := listening_positions e @ [(lbl, scene_key)],
                  attr_current_option := Some lbl\<rparr>)
               logged"
    using True by (simp add: Let_def and_then_def dict_set_fresh)
  then show ?thesis by blast
next
  case False
  assume "is_listening_position scene" "label scene = Some lbl"
    "lbl \<notin> set (dict_keys (listening_positions e))" "action_list scene = action # actions"
  then have "positions_loop active ((scene_key, scene) # rest) e logged
           = positions_loop active rest
               (e\<lparr>listening_positions := listening_positions e @ [(lbl, scene_key)],
                  attr_current_option := attr_current_option e\<rparr>)
               logged"
    using False by (simp add: Let_def and_then_def dict_set_fresh)
  then show ?thesis by blast
qed

lemma is_listening_position_label:
  "is_listening_position scene \<Longrightarrow> \<exists>lbl. label scene = Some lbl"
  by (auto simp: is_listening_position_def split: option.splits)

lemma positions_loop_step_fail:
  "is_listening_position scene \<Longrightarrow> label scene = Some lbl \<Longrightarrow>
   lbl \<notin> set (dict_keys (listening_positions e)) \<Longrightarrow>
   action_list scene = [] \<Longrightarrow>
   positions_loop active ((scene_key, scene) # rest) e logged = Inl IndexError"
  by (simp add: Let_def and_then_def)

declare positions_loop.simps(2) [simp del]

lemma positions_loop_head:
  obtains
    (other) "\<not> is_listening_position scene"
      "positions_loop active ((scene_key, scene) # rest) e logged
         = positions_loop active rest e logged"
  | (duplicate) lbl where "is_listening_position scene" "label scene = Some lbl"
      "lbl \<in> set (dict_keys (listening_positions e))"
      "positions_loop active ((scene_key, scene) # rest) e logged
         = positions_loop active rest e (logged @ [
             Log WARNING
               ''Ignoring listening position with duplicate name: %s and ID: %s''
               [lbl, scene_key]])"
  | (new) lbl cur where "is_listening_position scene" "label scene = Some lbl"
      "lbl \<notin> set (dict_keys (listening_positions e))"
      "positions_loop active ((scene_key, scene) # rest) e logged
         = positions_loop active rest
             (e\<lparr>listening_positions := listening_positions e @ [(lbl, scene_key)],
                attr_current_option := cur\<rparr>)
             logged"
  | (fail) "is_listening_position scene" "action_list scene = []"
      "positions_loop active ((scene_key, scene) # rest) e logged = Inl IndexError"
proof (cases "is_listening_position scene")
  case False
  then show ?thesis using other positions_loop_step_other by blast
next
  case True
  then obtain lbl where lbl: "label scene = Some lbl"
    using is_listening_position_label by blast
  show ?thesis
  proof (cases "lbl \<in> set (dict_keys (listening_positions e))")
    case True
    then show ?thesis
      using duplicate \<open>is_listening_position scene\<close> lbl positions_loop_step_duplicate by blast
  next
    case False
    show ?thesis
    proof (cases "action_list scene")
      case Nil
      then show ?thesis
        using fail \<open>is_listening_position scene\<close> lbl False positions_loop_step_fail by blast
    next
      case (Cons action actions)
      then obtain cur where
        "positions_loop active ((scene_key, scene) # rest) e logged
           = positions_loop active rest
               (e\<lparr>listening_positions := listening_positions e @ [(lbl, scene_key)],
                  attr_current_option := cur\<rparr>)
               logged"
        using positions_loop_step_new [OF \<open>is_listening_position scene\<close> lbl False Cons] by blast
      then show ?thesis using new \<open>is_listening_position scene\<close> lbl False by blast
    qed
  qed
qed

lemma positions_loop_distinct:
  "positions_loop active scs e logged = Inr (e', logged') \<Longrightarrow>
   distinct (dict_keys (listening_positions e)) \<Longrightarrow>
   distinct (dict_keys (listening_positions e'))"
proof (induction scs arbitrary: e logged)
  case Nil
  then show ?case by simp
next
  case (Cons x rest)
  obtain scene_key scene where x: "x = (scene_key, scene)" by (cases x)
  show ?case
  proof (cases rule: positions_loop_head [of scene active scene_key rest e logged])
    case other
    then show ?thesis using Cons x by simp
  next
    case (duplicate lbl)
    then show ?thesis using Cons x by simp
  next
    case (new lbl cur)
    have "distinct (dict_keys (listening_positions
             (e\<lparr>listening_positions := listening_positions e @ [(lbl, scene_key)],
                attr_current_option := cur\<rparr>)))"
      using new(3) Cons.prems(2) by (simp add: dict_keys_def)
    then show ?thesis using Cons.IH Cons.prems(1) new(4) x by simp
  next
    case fail
    then show ?thesis using Cons.prems(1) x by simp
  qed
qed

lemma positions_loop_keeps:
  "positions_loop active scs e logged = Inr (e', logged') \<Longrightarrow>
   map_of (listening_positions e) l = Some k \<Longrightarrow>
   map_of (listening_positions e') l = Some k"
proof (induction scs arbitrary: e logged)
  case Nil
  then show ?case by simp
next
  case (Cons x rest)
  obtain scene_key scene where x: "x = (scene_key, scene)" by (cases x)
  show ?case
  proof (cases rule: positions_loop_head [of scene active scene_key rest e logged])
    case other
    then show ?thesis using Cons x by simp
  next
    case (duplicate lbl)
    then show ?thesis using Cons x by simp
  next
    case (new lbl cur)
    have "map_of (listening_positions
             (e\<lparr>listening_positions := listening_positions e @ [(lbl, scene_key)],
                attr_current_option := cur\<rparr>)) l = Some k"
      using Cons.prems(2) by (simp add: map_add_Some_iff)
    then show ?thesis using Cons.IH Cons.prems(1) new(4) x by simp
  next
    case fail
    then show ?thesis using Cons.prems(1) x by simp
  qed
qed

lemma positions_loop_logged:
  "positions_loop active scs e logged = Inr (e', logged') \<Longrightarrow>
   set logged \<subseteq> set logged'"
proof (induction scs arbitrary: e logged)
  case Nil
  then show ?case by simp
next
  case (Cons x rest)
  obtain scene_key scene where x: "x = (scene_key, scene)" by (cases x)
  show ?case
  proof (cases rule: positions_loop_head [of scene active scene_key rest e logged])
    case other
    then show ?thesis using Cons x by simp
  next
    case (duplicate lbl)
    then have run: "positions_loop active rest e (logged @ [
        Log WARNING
          ''Ignoring listening position with duplicate name: %s and ID: %s'' [lbl, scene_key]])
                      = Inr (e', logged')"
      using Cons.prems x by simp
    have "set (logged @ [Log WARNING
            ''Ignoring listening position with duplicate name: %s and ID: %s''
            [lbl, scene_key]]) \<subseteq> set logged'"
      using run by (rule Cons.IH)
    then show ?thesis by simp
  next
    case (new lbl cur)
    then show ?thesis using Cons.IH Cons.prems x by simp
  next
    case fail
    then show ?thesis using Cons.prems x by simp
  qed
qed

lemma positions_loop_keys:
  "positions_loop active scs e logged = Inr (e', logged') \<Longrightarrow>
   l \<in> set (dict_keys (listening_positions e')) \<Longrightarrow>
   l \<in> set (dict_keys (listening_positions e))
   \<or> (\<exists>(k, sc) \<in> set scs. is_listening_position sc \<and> label sc = Some l)"
proof (induction scs arbitrary: e logged)
  case Nil
  then show ?case by simp
next
  case (Cons x rest)
  obtain scene_key scene where x: "x = (scene_key, scene)" by (cases x)
  show ?case
  proof (cases rule: positions_loop_head [of scene active scene_key rest e logged])
    case other
    then show ?thesis using Cons x by fastforce
  next
    case (duplicate lbl)
    then show ?thesis using Cons x by fastforce
  next
    case (new lbl cur)
    then have run: "positions_loop active rest
                      (e\<lparr>listening_positions := listening_positions e @ [(lbl, scene_key)],
                         attr_current_option := cur\<rparr>) logged
                    = Inr (e', logged')"
      using Cons.prems x by simp
    have "l \<in> set (dict_keys (listening_positions
                  (e\<lparr>listening_positions := listening_positions e @ [(lbl, scene_key)],
                     attr_current_option := cur\<rparr>)))
          \<or> (\<exists>(k, sc) \<in> set rest. is_listening_position sc \<and> label sc = Some l)"
      using run Cons.prems(2) by (rule Cons.IH)
    then show ?thesis using new(1) new(2) x by (auto simp: dict_keys_def)
  next
    case fail
    then show ?thesis using Cons.prems x by simp
  qed
qed

lemma positions_loop_append:
  "positions_loop active xs e logged = Inr (e1, logged1) \<Longrightarrow>
   positions_loop active (xs @ ys) e logged = positions_loop active ys e1 logged1"
proof (induction xs arbitrary: e logged)
  case Nil
  then show ?case by simp
next
  case (Cons x rest)
  obtain scene_key scene where x: "x = (scene_key, scene)" by (cases x)
  show ?case
  proof (cases rule: positions_loop_head [of scene active scene_key rest e logged])
    case other
    then show ?thesis
      using Cons x positions_loop_step_other [of scene active scene_key "rest @ ys" e logged]
      by simp
  next
    case (duplicate lbl)
    then show ?thesis
      using Cons x
        positions_loop_step_duplicate [of scene lbl e active scene_key "rest @ ys" logged]
      by simp
  next
    case (new lbl cur)
    obtain action actions where a: "action_list scene = action # actions"
      using new Cons.prems x
      by (cases "action_list scene") (simp_all add: positions_loop_step_fail)
    have c: "(if group_id active = speaker_group_id action
              then e\<lparr>listening_positions := dict_set (listening_positions e) lbl scene_key,
                     attr_current_option := Some lbl\<rparr>
              else e\<lparr>listening_positions := dict_set (listening_positions e) lbl scene_key\<rparr>)
             = e\<lparr>listening_positions := listening_positions e @ [(lbl, scene_key)],
                 attr_current_option :=
                   (if group_id active = speaker_group_id action then Some lbl
                    else attr_current_option e)\<rparr>"
      using new(3) by (simp add: dict_set_fresh)
    have full: "\<And>tail. positions_loop active ((scene_key, scene) # tail) e logged
                 = positions_loop active tail
                     (e\<lparr>listening_positions := listening_positions e @ [(lbl, scene_key)],
                        attr_current_option :=
                          (if group_id active = speaker_group_id action then Some lbl
                           else attr_current_option e)\<rparr>)
                     logged"
      using new(1) new(2) new(3) a c
      by (simp add: positions_loop.simps(2) Let_def and_then_def)
    show ?thesis
      using Cons.IH Cons.prems x full [of rest] full [of "rest @ ys"] by simp
  next
    case fail
    then show ?thesis using Cons.prems x by simp
  qed
qed

lemma positions_loop_returns:
  "\<forall>(k, sc) \<in> set scs. is_listening_position sc \<longrightarrow> action_list sc \<noteq> [] \<Longrightarrow>
   \<exists>e' logged'. positions_loop active scs e logged = Inr (e', logged')"
proof (induction scs arbitrary: e logged)
  case Nil
  then show ?case by simp
next
  case (Cons x rest)
  obtain scene_key scene where x: "x = (scene_key, scene)" by (cases x)
  have rest: "\<forall>(k, sc) \<in> set rest. is_listening_position sc \<longrightarrow> action_list sc \<noteq> []"
    using Cons.prems by simp
  show ?case
  proof (cases rule: positions_loop_head [of scene active scene_key rest e logged])
    case other
    then show ?thesis using Cons.IH [OF rest] x by simp
  next
    case (duplicate lbl)
    then show ?thesis using Cons.IH [OF rest] x by simp
  next
    case (new lbl cur)
    then show ?thesis using Cons.IH [OF rest] x by simp
  next
    case fail
    then show ?thesis using Cons.prems x by simp
  qed
qed

lemma duplicate_listening_position_loop:
  assumes "scenes = pre @ (k1, sc1) # mid @ (k2, sc2) # post"
    and "distinct (dict_keys scenes)"
    and "is_listening_position sc1" and "label sc1 = Some lbl"
    and "is_listening_position sc2" and "label sc2 = Some lbl"
    and "\<forall>(k, sc) \<in> set pre. \<not> (is_listening_position sc \<and> label sc = Some lbl)"
    and "\<forall>(k, sc) \<in> set scenes. is_listening_position sc \<longrightarrow> action_list sc \<noteq> []"
  shows "\<exists>e' effs. update_listening_positions scenes active e = Inr (e', effs)
           \<and> map_of (listening_positions e') lbl = Some k1
           \<and> (lbl, k2) \<notin> set (listening_positions e')
           \<and> Log WARNING
                    ''Ignoring listening position with duplicate name: %s and ID: %s''
                    [lbl, k2] \<in> set effs
           \<and> attr_options e' = dict_keys (listening_positions e')
           \<and> distinct (attr_options e')
           \<and> lbl \<in> set (attr_options e')"
proof -
  let ?e0 = "e\<lparr>listening_positions := []\<rparr>"
  have actions: "\<And>part. set part \<subseteq> set scenes \<Longrightarrow>
      \<forall>(k, sc) \<in> set part. is_listening_position sc \<longrightarrow> action_list sc \<noteq> []"
    using assms(8) by blast
  have ne: "k1 \<noteq> k2"
    using assms(1) assms(2) by (auto simp: dict_keys_def)
  \<comment> \<open>the scenes before the first occurrence\<close>
  obtain ea la where pre: "positions_loop active pre ?e0 [] = Inr (ea, la)"
    using positions_loop_returns [OF actions [of pre]] assms(1) by fastforce
  have fresh: "lbl \<notin> set (dict_keys (listening_positions ea))"
  proof
    assume "lbl \<in> set (dict_keys (listening_positions ea))"
    then have "lbl \<in> set (dict_keys (listening_positions ?e0))
               \<or> (\<exists>(k, sc) \<in> set pre. is_listening_position sc \<and> label sc = Some lbl)"
      using pre by (rule positions_loop_keys [rotated])
    then show False using assms(7) by (auto simp: dict_keys_def)
  qed
  \<comment> \<open>the first occurrence\<close>
  obtain action actions where a1: "action_list sc1 = action # actions"
    using assms(1) assms(3) assms(8) by (cases "action_list sc1") auto
  obtain cur where first:
    "positions_loop active ((k1, sc1) # mid @ (k2, sc2) # post) ea la
       = positions_loop active (mid @ (k2, sc2) # post)
           (ea\<lparr>listening_positions := listening_positions ea @ [(lbl, k1)],
               attr_current_option := cur\<rparr>) la"
    using positions_loop_step_new [OF assms(3) assms(4) fresh a1] by blast
  let ?e1 = "ea\<lparr>listening_positions := listening_positions ea @ [(lbl, k1)],
                 attr_current_option := cur\<rparr>"
  have in1: "map_of (listening_positions ?e1) lbl = Some k1"
    using fresh by (simp add: dict_keys_def map_add_Some_iff map_of_eq_None_iff)
  \<comment> \<open>the scenes between the two occurrences\<close>
  obtain eb lb where mid: "positions_loop active mid ?e1 la = Inr (eb, lb)"
    using positions_loop_returns [OF actions [of mid]] assms(1) by fastforce
  have in2: "map_of (listening_positions eb) lbl = Some k1"
    using mid in1 by (rule positions_loop_keeps)
  have seen: "lbl \<in> set (dict_keys (listening_positions eb))"
    using map_of_SomeD [OF in2] by (force simp: dict_keys_def)
  \<comment> \<open>the second occurrence\<close>
  have second:
    "positions_loop active ((k2, sc2) # post) eb lb
       = positions_loop active post eb (lb @ [Log WARNING
            ''Ignoring listening position with duplicate name: %s and ID: %s''
            [lbl, k2]])"
    using assms(5) assms(6) seen by (rule positions_loop_step_duplicate)
  \<comment> \<open>the scenes after it\<close>
  obtain ec lc where post:
    "positions_loop active post eb (lb @ [Log WARNING
            ''Ignoring listening position with duplicate name: %s and ID: %s''
            [lbl, k2]]) = Inr (ec, lc)"
    using positions_loop_returns [OF actions [of post]] assms(1) by fastforce
  have in3: "map_of (listening_positions ec) lbl = Some k1"
    using post in2 by (rule positions_loop_keeps)
  have warned: "Log WARNING
                  ''Ignoring listening position with duplicate name: %s and ID: %s''
                  [lbl, k2] \<in> set lc"
    using positions_loop_logged [OF post] by simp
  \<comment> \<open>the whole loop\<close>
  have whole: "positions_loop active scenes ?e0 [] = Inr (ec, lc)"
    using positions_loop_append [OF pre, of "(k1, sc1) # mid @ (k2, sc2) # post"]
      positions_loop_append [OF mid, of "(k2, sc2) # post"]
      first second post assms(1)
    by simp
  have dist: "distinct (dict_keys (listening_positions ec))"
    using whole by (rule positions_loop_distinct) (simp add: dict_keys_def)
  have dropped: "(lbl, k2) \<notin> set (listening_positions ec)"
  proof
    assume "(lbl, k2) \<in> set (listening_positions ec)"
    then have "map_of (listening_positions ec) lbl = Some k2"
      using dist by (simp add: dict_keys_def)
    then show False using in3 ne by simp
  qed
  have member: "lbl \<in> set (dict_keys (listening_positions ec))"
    using map_of_SomeD [OF in3] by (force simp: dict_keys_def)
  have "update_listening_positions scenes active e
          = Inr (ec\<lparr>attr_options := dict_keys (listening_positions ec)\<rparr>, lc @ [Write_ha_state])"
    using whole by (simp add: update_listening_positions_def and_then_def)
  then show ?thesis
    using in3 dropped warned dist member by simp
qed

lemma is_listening_position_iff:
  "is_listening_position sc
   = ((\<exists>ts. tags sc = Some ts \<and> ''listeningposition'' \<in> set ts) \<and> label sc \<noteq> None)"
  by (auto simp: is_listening_position_def split: option.splits)

text \<open>
  C9. Let the scenes returned by the client (a dict, so with distinct keys) contain two
  scenes that are tagged as listening positions and carry the same label, the first of
  them being the first such scene with that label, and let every labelled scene tagged as
  a listening position have an action. Then the rebuild returns; the label is mapped to the
  key of the first scene; the second scene is not in the catalog; the warning that names the
  label and the key of the second scene has been logged; and the option list is the list of
  the catalog's labels, each of them once, the shared label among them.
\<close>

theorem C9_duplicate_listening_position:
  assumes "scenes = pre @ (k1, sc1) # mid @ (k2, sc2) # post"
    and "distinct (map fst scenes)"
    and "tags sc1 = Some ts1" and "''listeningposition'' \<in> set ts1" and "label sc1 = Some lbl"
    and "tags sc2 = Some ts2" and "''listeningposition'' \<in> set ts2" and "label sc2 = Some lbl"
    and "\<forall>(k, sc) \<in> set pre.
           \<not> ((\<exists>ts. tags sc = Some ts \<and> ''listeningposition'' \<in> set ts)
              \<and> label sc = Some lbl)"
    and "\<forall>(k, sc) \<in> set scenes.
           (\<exists>ts. tags sc = Some ts \<and> ''listeningposition'' \<in> set ts) \<and> label sc \<noteq> None
           \<longrightarrow> action_list sc \<noteq> []"
  shows "\<exists>e' effs. update_listening_positions scenes active e = Inr (e', effs)
           \<and> map_of (listening_positions e') lbl = Some k1
           \<and> (lbl, k2) \<notin> set (listening_positions e')
           \<and> Log WARNING
                 ''Ignoring listening position with duplicate name: %s and ID: %s''
                 [lbl, k2] \<in> set effs
           \<and> attr_options e' = map fst (listening_positions e')
           \<and> distinct (attr_options e')
           \<and> lbl \<in> set (attr_options e')"
proof -
  have d: "distinct (dict_keys scenes)" using assms(2) by (simp add: dict_keys_def)
  have p1: "is_listening_position sc1"
    using assms(3) assms(4) assms(5) by (simp add: is_listening_position_iff)
  have p2: "is_listening_position sc2"
    using assms(6) assms(7) assms(8) by (simp add: is_listening_position_iff)
  have before: "\<forall>(k, sc) \<in> set pre. \<not> (is_listening_position sc \<and> label sc = Some lbl)"
    using assms(9) by (auto simp: is_listening_position_iff)
  have acts: "\<forall>(k, sc) \<in> set scenes. is_listening_position sc \<longrightarrow> action_list sc \<noteq> []"
    using assms(10) by (auto simp: is_listening_position_iff)
  show ?thesis
    using duplicate_listening_position_loop
      [OF assms(1) d p1 assms(5) p2 assms(8) before acts, of active e]
    by (simp add: dict_keys_def)
qed

theorem C9_duplicate_listening_position_witness:
  "update_listening_positions example_scenes \<lparr>group_id = Some ''group1''\<rparr> example_select
     = Inr (\<lparr>listening_positions = [(''Sofa'', ''scene1''), (''Desk'', ''scene4'')],
             attr_current_option = Some ''Sofa'',
             attr_options = [''Sofa'', ''Desk'']\<rparr>,
            [Log WARNING
               ''Ignoring listening position with duplicate name: %s and ID: %s''
               [''Sofa'', ''scene3''],
             Write_ha_state])
   \<and> (\<exists>e' effs. update_listening_positions example_scenes \<lparr>group_id = Some ''group1''\<rparr>
                    example_select = Inr (e', effs)
           \<and> map_of (listening_positions e') ''Sofa'' = Some ''scene1''
           \<and> (''Sofa'', ''scene3'') \<notin> set (listening_positions e')
           \<and> Log WARNING
                 ''Ignoring listening position with duplicate name: %s and ID: %s''
                 [''Sofa'', ''scene3''] \<in> set effs
           \<and> attr_options e' = map fst (listening_positions e')
           \<and> distinct (attr_options e')
           \<and> ''Sofa'' \<in> set (attr_options e'))"
proof -
  let ?s0 = "\<lparr>tags = None, label = Some ''Sofa'', action_list = []\<rparr>"
  let ?s1 = "\<lparr>tags = Some [''listeningposition''], label = Some ''Sofa'',
               action_list = [\<lparr>speaker_group_id = Some ''group1''\<rparr>]\<rparr>"
  let ?s2 = "\<lparr>tags = Some [''party''], label = Some ''Party'', action_list = []\<rparr>"
  let ?s3 = "\<lparr>tags = Some [''listeningposition''], label = Some ''Sofa'',
               action_list = [\<lparr>speaker_group_id = Some ''group2''\<rparr>]\<rparr>"
  let ?s4 = "\<lparr>tags = Some [''listeningposition''], label = Some ''Desk'',
               action_list = [\<lparr>speaker_group_id = Some ''group3''\<rparr>]\<rparr>"
  have h1: "example_scenes
              = [(''scene0'', ?s0)] @ (''scene1'', ?s1) # [(''scene2'', ?s2)]
                  @ (''scene3'', ?s3) # [(''scene4'', ?s4)]"
    by (simp add: example_scenes_def)
  have h2: "distinct (map fst example_scenes)"
    by (simp add: example_scenes_def)
  have t1: "tags ?s1 = Some [''listeningposition'']" by simp
  have m1: "''listeningposition'' \<in> set [''listeningposition'']" by simp
  have l1: "label ?s1 = Some ''Sofa''" by simp
  have t2: "tags ?s3 = Some [''listeningposition'']" by simp
  have l2: "label ?s3 = Some ''Sofa''" by simp
  have h7: "\<forall>(k, sc) \<in> set [(''scene0'', ?s0)].
              \<not> ((\<exists>ts. tags sc = Some ts \<and> ''listeningposition'' \<in> set ts)
                 \<and> label sc = Some ''Sofa'')"
    by simp
  have h8: "\<forall>(k, sc) \<in> set example_scenes.
              (\<exists>ts. tags sc = Some ts \<and> ''listeningposition'' \<in> set ts) \<and> label sc \<noteq> None
              \<longrightarrow> action_list sc \<noteq> []"
    by (simp add: example_scenes_def)
  have run: "update_listening_positions example_scenes \<lparr>group_id = Some ''group1''\<rparr> example_select
     = Inr (\<lparr>listening_positions = [(''Sofa'', ''scene1''), (''Desk'', ''scene4'')],
             attr_current_option = Some ''Sofa'',
             attr_options = [''Sofa'', ''Desk'']\<rparr>,
            [Log WARNING
               ''Ignoring listening position with duplicate name: %s and ID: %s''
               [''Sofa'', ''scene3''],
             Write_ha_state])"
    by (simp add: update_listening_positions_def positions_loop.simps(2) and_then_def Let_def
        example_scenes_def example_select_def is_listening_position_def dict_keys_def)
  have dup: "\<exists>e' effs. update_listening_positions example_scenes \<lparr>group_id = Some ''group1''\<rparr>
                    example_select = Inr (e', effs)
           \<and> map_of (listening_positions e') ''Sofa'' = Some ''scene1''
           \<and> (''Sofa'', ''scene3'') \<notin> set (listening_positions e')
           \<and> Log WARNING
                 ''Ignoring listening position with duplicate name: %s and ID: %s''
                 [''Sofa'', ''scene3''] \<in> set effs
           \<and> attr_options e' = map fst (listening_positions e')
           \<and> distinct (attr_options e')
           \<and> ''Sofa'' \<in> set (attr_options e')"
    by (rule C9_duplicate_listening_position [OF h1 h2 t1 m1 l1 t2 m1 l2 h7 h8])
  show ?thesis using run dup by (rule conjI)
qed

end
